theory Spec2Isabelle
  imports Main "HOL-Library.Char_ord" "HOL-Library.List_Lexorder"
begin

section \<open>Go strings and errors\<close>

text \<open>
  A Go string is a sequence of bytes, here a \<^typ>\<open>string\<close>, and \<open>len\<close> is the number of
  bytes.  The functions of package \<open>strings\<close> that the client calls are written out below.
\<close>

definition HasPrefix :: "string \<Rightarrow> string \<Rightarrow> bool" where
  "HasPrefix s p = (take (length p) s = p)"

definition HasSuffix :: "string \<Rightarrow> string \<Rightarrow> bool" where
  "HasSuffix s p = (length p \<le> length s \<and> drop (length s - length p) s = p)"

fun Contains :: "string \<Rightarrow> string \<Rightarrow> bool" where
  "Contains [] sub = (sub = [])"
| "Contains (c # cs) sub = (HasPrefix (c # cs) sub \<or> Contains cs sub)"

definition TrimPrefix :: "string \<Rightarrow> string \<Rightarrow> string" where
  "TrimPrefix s p = (if HasPrefix s p then drop (length p) s else s)"

definition upper_byte :: "char \<Rightarrow> char" where
  "upper_byte c = (if CHR ''a'' \<le> c \<and> c \<le> CHR ''z'' then char_of (of_char c - (32::nat)) else c)"

definition lower_byte :: "char \<Rightarrow> char" where
  "lower_byte c = (if CHR ''A'' \<le> c \<and> c \<le> CHR ''Z'' then char_of (of_char c + (32::nat)) else c)"

text \<open>
  \<open>strings.ToUpper\<close> and \<open>strings.ToLower\<close> map every ASCII letter, and they map to ASCII the
  few other runes whose case partner is an ASCII letter: U+017F (bytes C5 BF) to \<open>S\<close> and
  U+0131 (C4 B1) to \<open>I\<close> in upper case, U+0130 (C4 B0) to \<open>i\<close> and U+212A (E2 84 AA) to
  \<open>k\<close> in lower case.  Every other rune outside ASCII goes to a rune outside ASCII; its
  bytes are kept here as they are, which leaves every test for an ASCII substring as Go
  decides it.
\<close>

fun ToUpper :: "string \<Rightarrow> string" where
  "ToUpper (a # b # cs) =
     (if a = CHR 0xC5 \<and> b = CHR 0xBF then CHR ''S'' # ToUpper cs
      else if a = CHR 0xC4 \<and> b = CHR 0xB1 then CHR ''I'' # ToUpper cs
      else upper_byte a # ToUpper (b # cs))"
| "ToUpper [a] = [upper_byte a]"
| "ToUpper [] = []"

fun ToLower :: "string \<Rightarrow> string" where
  "ToLower (a # b # c # cs) =
     (if a = CHR 0xE2 \<and> b = CHR 0x84 \<and> c = CHR 0xAA then CHR ''k'' # ToLower cs
      else if a = CHR 0xC4 \<and> b = CHR 0xB0 then CHR ''i'' # ToLower (c # cs)
      else lower_byte a # ToLower (b # c # cs))"
| "ToLower [a, b] =
     (if a = CHR 0xC4 \<and> b = CHR 0xB0 then [CHR ''i''] else [lower_byte a, lower_byte b])"
| "ToLower [a] = [lower_byte a]"
| "ToLower [] = []"

text \<open>
  An \<open>error\<close> value carries its message and, when it was built by \<open>fmt.Errorf\<close> with
  \<open>%w\<close>, the error it wraps.  A function of Go type \<open>error\<close> returns \<open>None\<close> for \<open>nil\<close>.
\<close>

datatype error = Error string "error option"

fun Error_text :: "error \<Rightarrow> string" where
  "Error_text (Error m w) = m"

fun Unwrap :: "error \<Rightarrow> error option" where
  "Unwrap (Error m w) = w"

definition Errorf :: "string \<Rightarrow> error" where
  "Errorf m = Error m None"

definition Errorf_w :: "string \<Rightarrow> error \<Rightarrow> error" where
  "Errorf_w prefix e = Error (prefix @ Error_text e) (Some e)"

section \<open>Package jobs: completion test and request validation\<close>

definition completedStatuses :: "string list" where
  "completedStatuses =
     [''OUTPUT'', ''CC 0000'', ''CC 0001'', ''CC 0002'', ''CC 0003'', ''CC 0004'', ''ABEND'']"

fun isJobComplete_loop :: "string \<Rightarrow> string list \<Rightarrow> bool" where
  "isJobComplete_loop status [] = False"
| "isJobComplete_loop status (completedStatus # rest) =
     (if Contains status completedStatus then True else isJobComplete_loop status rest)"

definition isJobComplete :: "string \<Rightarrow> bool" where
  "isJobComplete status = isJobComplete_loop (ToUpper status) completedStatuses"

record SubmitJobRequest =
  JobDataSet :: string
  JobLocalFile :: string
  JobStatement :: string
  Directory :: string
  Extension :: string
  Volume :: string

definition isValidDatasetChar :: "char \<Rightarrow> bool" where
  "isValidDatasetChar c =
     ((CHR ''A'' \<le> c \<and> c \<le> CHR ''Z'') \<or> (CHR ''0'' \<le> c \<and> c \<le> CHR ''9'') \<or>
      c = CHR ''@'' \<or> c = CHR ''#'' \<or> c = CHR ''$'' \<or> c = CHR ''-'' \<or> c = CHR ''.'')"

text \<open>
  \<open>isValidDatasetName\<close> ranges over the runes of the name.  A rune decoded from bytes
  outside ASCII is never one of the permitted characters, and neither is such a byte, so
  the loop is written over the bytes.
\<close>

definition isValidDatasetName :: "string \<Rightarrow> bool" where
  "isValidDatasetName dataset =
     (if length dataset = 0 \<or> length dataset > 44 then False
      else if CHR ''0'' \<le> hd dataset \<and> hd dataset \<le> CHR ''9'' then False
      else list_all isValidDatasetChar dataset)"

definition ValidateJobRequest :: "SubmitJobRequest option \<Rightarrow> error option" where
  "ValidateJobRequest request =
     (case request of
        None \<Rightarrow> Some (Errorf ''job request cannot be nil'')
      | Some r \<Rightarrow>
          if JobStatement r = [] \<and> JobDataSet r = [] \<and> JobLocalFile r = [] then
            Some (Errorf ''at least one job source must be specified (jobStatement, jobDataSet, or jobLocalFile)'')
          else if JobStatement r \<noteq> [] \<and> \<not> Contains (ToUpper (JobStatement r)) ''JOB'' then
            Some (Errorf ''job statement must contain a JOB card'')
          else if JobDataSet r \<noteq> [] \<and> \<not> isValidDatasetName (JobDataSet r) then
            Some (Errorf (''invalid dataset name: '' @ JobDataSet r))
          else None)"

section \<open>Package datasets: name validation\<close>

text \<open>
  The pattern \<open>^[A-Z@#$][A-Z0-9@#$.-]*$\<close>: one character of the first class, then any
  number of characters of the second, and nothing else.
\<close>

definition validPattern_first :: "char \<Rightarrow> bool" where
  "validPattern_first c =
     ((CHR ''A'' \<le> c \<and> c \<le> CHR ''Z'') \<or> c = CHR ''@'' \<or> c = CHR ''#'' \<or> c = CHR ''$'')"

definition validPattern_rest :: "char \<Rightarrow> bool" where
  "validPattern_rest c =
     ((CHR ''A'' \<le> c \<and> c \<le> CHR ''Z'') \<or> (CHR ''0'' \<le> c \<and> c \<le> CHR ''9'') \<or>
      c = CHR ''@'' \<or> c = CHR ''#'' \<or> c = CHR ''$'' \<or> c = CHR ''.'' \<or> c = CHR ''-'')"

fun validPattern_MatchString :: "string \<Rightarrow> bool" where
  "validPattern_MatchString [] = False"
| "validPattern_MatchString (c # cs) = (validPattern_first c \<and> list_all validPattern_rest cs)"

definition ValidateDatasetName :: "string \<Rightarrow> error option" where
  "ValidateDatasetName name =
     (if name = [] then Some (Errorf ''dataset name cannot be empty'')
      else if length name > 44 then Some (Errorf ''dataset name cannot exceed 44 characters'')
      else if \<not> validPattern_MatchString name then
        Some (Errorf ''dataset name contains invalid characters'')
      else if Contains name ''..'' then
        Some (Errorf ''dataset name cannot contain consecutive periods'')
      else if HasPrefix name ''.'' \<or> HasSuffix name ''.'' then
        Some (Errorf ''dataset name cannot start or end with a period'')
      else if Contains name ''--'' then
        Some (Errorf ''dataset name cannot contain consecutive hyphens'')
      else None)"

section \<open>Package profile: sessions\<close>

text \<open>
  \<open>fmt.Sprintf("%d", n)\<close> and \<open>strconv.Itoa\<close>: the decimal digits of an integer, with a
  minus sign for a negative one.
\<close>

definition digits :: "string" where
  "digits = ''0123456789''"

fun decimal :: "nat \<Rightarrow> string" where
  "decimal n = (if n < 10 then [digits ! n] else decimal (n div 10) @ [digits ! (n mod 10)])"

declare decimal.simps [simp del]

definition Itoa :: "int \<Rightarrow> string" where
  "Itoa n = (if n < 0 then CHR ''-'' # decimal (nat (- n)) else decimal (nat n))"

text \<open>\<open>base64.StdEncoding.EncodeToString\<close>: the standard alphabet, padded with \<open>=\<close>.\<close>

definition encodeStd :: "string" where
  "encodeStd = ''ABCDEFGHIJKLMNOPQRSTUVWXYZabcdefghijklmnopqrstuvwxyz0123456789+/''"

definition b64 :: "nat \<Rightarrow> char" where
  "b64 n = encodeStd ! (n mod 64)"

fun EncodeToString_bytes :: "nat list \<Rightarrow> string" where
  "EncodeToString_bytes (a # b # c # rest) =
     [b64 (a div 4), b64 ((a mod 4) * 16 + b div 16), b64 ((b mod 16) * 4 + c div 64), b64 (c mod 64)]
       @ EncodeToString_bytes rest"
| "EncodeToString_bytes [a, b] =
     [b64 (a div 4), b64 ((a mod 4) * 16 + b div 16), b64 ((b mod 16) * 4), CHR ''='']"
| "EncodeToString_bytes [a] = [b64 (a div 4), b64 ((a mod 4) * 16), CHR ''='', CHR ''='']"
| "EncodeToString_bytes [] = []"

definition EncodeToString :: "string \<Rightarrow> string" where
  "EncodeToString s = EncodeToString_bytes (map of_char s)"

record ZOSMFProfile =
  Name :: string
  Host :: string
  Port :: int
  User :: string
  Password :: string
  RejectUnauthorized :: bool
  BasePath :: string
  Protocol :: string
  Encoding :: string
  ResponseTimeout :: int
  CertFile :: string
  CertKeyFile :: string

text \<open>
  The HTTP client of a session is described by what \<open>NewSession\<close> configures: the TLS
  policy and the timeout, in nanoseconds.
\<close>

record HTTPClient =
  InsecureSkipVerify :: bool
  Timeout :: int

record Session =
  Profile :: ZOSMFProfile
  Host :: string
  Port :: int
  User :: string
  Password :: string
  BaseURL :: string
  HTTPClient :: HTTPClient
  Headers :: "string \<rightharpoonup> string"

definition NewSession :: "ZOSMFProfile \<Rightarrow> error + Session" where
  "NewSession p =
     (let client = \<lparr>InsecureSkipVerify = \<not> ZOSMFProfile.RejectUnauthorized p,
                     Timeout = 30 * 1000000000\<rparr>;
          protocol = ZOSMFProfile.Protocol p;
          protocol = (if protocol = [] then ''https'' else protocol);
          protocol = (if ZOSMFProfile.Port p = 80 then ''http''
                      else if ZOSMFProfile.Port p = 8080 then ''http'' else protocol);
          baseURL = protocol @ ''://'' @ ZOSMFProfile.Host p;
          baseURL = (if ZOSMFProfile.Port p \<noteq> 0 \<and> ZOSMFProfile.Port p \<noteq> 80 \<and>
                        ZOSMFProfile.Port p \<noteq> 443
                     then baseURL @ '':'' @ Itoa (ZOSMFProfile.Port p) else baseURL);
          basePath = ZOSMFProfile.BasePath p;
          basePath = (if basePath = [] then ''/zosmf'' else basePath);
          basePath = (if hd basePath \<noteq> CHR ''/'' then ''/'' @ basePath else basePath);
          baseURL = baseURL @ basePath;
          headers = [''Content-Type'' \<mapsto> ''application/json'', ''Accept'' \<mapsto> ''application/json''];
          headers = (if ZOSMFProfile.User p \<noteq> [] \<and> ZOSMFProfile.Password p \<noteq> []
                     then headers(''Authorization'' \<mapsto>
                            ''Basic '' @ EncodeToString (ZOSMFProfile.User p @ '':'' @ ZOSMFProfile.Password p))
                     else headers)
      in Inr \<lparr>Profile = p, Host = ZOSMFProfile.Host p, Port = ZOSMFProfile.Port p,
              User = ZOSMFProfile.User p, Password = ZOSMFProfile.Password p,
              BaseURL = baseURL, HTTPClient = client, Headers = headers\<rparr>)"

text \<open>
  The base URL as the specification words it, for comparison with \<open>NewSession\<close>: the
  profile's protocol, by default http on ports 80 and 8080 and https otherwise; the port
  unless it is 80 or 443; the base path, by default \<open>/zosmf\<close>.
\<close>

definition claimed_BaseURL :: "ZOSMFProfile \<Rightarrow> string" where
  "claimed_BaseURL p =
     (if ZOSMFProfile.Protocol p \<noteq> [] then ZOSMFProfile.Protocol p
      else if ZOSMFProfile.Port p = 80 \<or> ZOSMFProfile.Port p = 8080 then ''http'' else ''https'')
     @ ''://'' @ ZOSMFProfile.Host p
     @ (if ZOSMFProfile.Port p \<noteq> 80 \<and> ZOSMFProfile.Port p \<noteq> 443
        then '':'' @ Itoa (ZOSMFProfile.Port p) else [])
     @ (if ZOSMFProfile.BasePath p = [] then ''/zosmf''
        else if hd (ZOSMFProfile.BasePath p) \<noteq> CHR ''/'' then ''/'' @ ZOSMFProfile.BasePath p
        else ZOSMFProfile.BasePath p)"

section \<open>Package encoding/json, as far as the client uses it\<close>

text \<open>
  Response bodies are decoded by \<open>json.Unmarshal\<close> and \<open>json.Decoder.Decode\<close>.  Both scan
  the text by the JSON grammar and then store the value into the Go variable they are given.
  The first step is the parser below; the second is written per target type further down.

  A number is kept as its literal.  \<open>JString\<close> is a string by its value, as the client puts
  it into the bodies it sends.  \<open>JQuoted\<close> is a string of a text that was parsed, as it is
  written between its quotes, escapes included: most targets store its value, but
  \<open>time.Time\<close> reads what is written.
\<close>

datatype json =
    JNull
  | JBool bool
  | JNumber string
  | JString string
  | JQuoted string
  | JArray "json list"
  | JObject "(string \<times> json) list"

definition isSpace :: "char \<Rightarrow> bool" where
  "isSpace c = (c = CHR '' '' \<or> c = CHR 0x09 \<or> c = CHR 0x0D \<or> c = CHR 0x0A)"

definition skipSpace :: "string \<Rightarrow> string" where
  "skipSpace s = dropWhile isSpace s"

definition isDigit :: "char \<Rightarrow> bool" where
  "isDigit c = (CHR ''0'' \<le> c \<and> c \<le> CHR ''9'')"

definition hexval :: "char \<Rightarrow> int option" where
  "hexval c =
     (if CHR ''0'' \<le> c \<and> c \<le> CHR ''9'' then Some (of_char c - 48)
      else if CHR ''a'' \<le> c \<and> c \<le> CHR ''f'' then Some (of_char c - 87)
      else if CHR ''A'' \<le> c \<and> c \<le> CHR ''F'' then Some (of_char c - 55)
      else None)"

definition expect :: "char \<Rightarrow> string \<Rightarrow> string option" where
  "expect c s = (case s of [] \<Rightarrow> None | x # r \<Rightarrow> if x = c then Some r else None)"

text \<open>
  A string literal, from after its opening quote: the text up to the closing quote, still
  with its escapes, and what follows the closing quote.
\<close>

fun scan_string :: "string \<Rightarrow> (string \<times> string) option" where
  "scan_string [] = None"
| "scan_string [c] = (if c = CHR 0x22 then Some ([], []) else None)"
| "scan_string (c # e # cs) =
     (if c = CHR 0x22 then Some ([], e # cs)
      else if c = CHR 0x5C then
        (if e \<in> set [CHR 0x22, CHR 0x5C, CHR ''/'', CHR ''b'', CHR ''f'', CHR ''n'', CHR ''r'', CHR ''t''] then
           (case scan_string cs of None \<Rightarrow> None | Some (raw, rest) \<Rightarrow> Some (c # e # raw, rest))
         else if e = CHR ''u'' \<and> length cs \<ge> 4 \<and> list_all (\<lambda>h. hexval h \<noteq> None) (take 4 cs) then
           (case scan_string (drop 4 cs) of None \<Rightarrow> None
            | Some (raw, rest) \<Rightarrow> Some (c # e # take 4 cs @ raw, rest))
         else None)
      else if c < CHR 0x20 then None
      else (case scan_string (e # cs) of None \<Rightarrow> None | Some (raw, rest) \<Rightarrow> Some (c # raw, rest)))"

text \<open>
  The value of a string literal.  Escapes are replaced, a \<open>\u\<close> escape by the UTF-8
  encoding of its code point (a surrogate pair by the code point it encodes, a lone
  surrogate by U+FFFD), and every byte that is not part of well-formed UTF-8 by U+FFFD.
\<close>

definition EncodeRune :: "int \<Rightarrow> string" where
  "EncodeRune r =
     (if r < 0x80 then [char_of r]
      else if r < 0x800 then [char_of (0xC0 + r div 64), char_of (0x80 + r mod 64)]
      else if r < 0x10000 then
        [char_of (0xE0 + r div 4096), char_of (0x80 + (r div 64) mod 64), char_of (0x80 + r mod 64)]
      else [char_of (0xF0 + r div 262144), char_of (0x80 + (r div 4096) mod 64),
            char_of (0x80 + (r div 64) mod 64), char_of (0x80 + r mod 64)])"

definition getu4 :: "string \<Rightarrow> int" where
  "getu4 s =
     (if length s \<ge> 6 \<and> s ! 0 = CHR 0x5C \<and> s ! 1 = CHR ''u'' \<and>
         list_all (\<lambda>h. hexval h \<noteq> None) (take 4 (drop 2 s))
      then foldl (\<lambda>a h. a * 16 + the (hexval h)) 0 (take 4 (drop 2 s))
      else - 1)"

definition cont :: "char \<Rightarrow> bool" where
  "cont c = (CHR 0x80 \<le> c \<and> c \<le> CHR 0xBF)"

text \<open>The length of the well-formed UTF-8 sequence at the head of a string, 0 if none.\<close>

definition rune_len :: "string \<Rightarrow> nat" where
  "rune_len s =
     (case s of
        [] \<Rightarrow> 0
      | a # r \<Rightarrow>
          if a < CHR 0x80 then 1
          else if CHR 0xC2 \<le> a \<and> a \<le> CHR 0xDF then
            (if length r \<ge> 1 \<and> cont (r ! 0) then 2 else 0)
          else if CHR 0xE0 \<le> a \<and> a \<le> CHR 0xEF then
            (if length r \<ge> 2 \<and> cont (r ! 0) \<and> cont (r ! 1) \<and>
                (a = CHR 0xE0 \<longrightarrow> CHR 0xA0 \<le> r ! 0) \<and> (a = CHR 0xED \<longrightarrow> r ! 0 \<le> CHR 0x9F)
             then 3 else 0)
          else if CHR 0xF0 \<le> a \<and> a \<le> CHR 0xF4 then
            (if length r \<ge> 3 \<and> cont (r ! 0) \<and> cont (r ! 1) \<and> cont (r ! 2) \<and>
                (a = CHR 0xF0 \<longrightarrow> CHR 0x90 \<le> r ! 0) \<and> (a = CHR 0xF4 \<longrightarrow> r ! 0 \<le> CHR 0x8F)
             then 4 else 0)
          else 0)"

function unquote :: "string \<Rightarrow> string" where
  "unquote [] = []"
| "unquote (c # cs) =
     (if c = CHR 0x5C then
        (case cs of
           [] \<Rightarrow> []
         | e # r \<Rightarrow>
             if e = CHR ''u'' then
               (let rr = getu4 (c # cs) in
                if 0xD800 \<le> rr \<and> rr < 0xE000 then
                  (let rr1 = getu4 (drop 4 r) in
                   if rr < 0xDC00 \<and> 0xDC00 \<le> rr1 \<and> rr1 < 0xE000 then
                     EncodeRune (0x10000 + (rr - 0xD800) * 1024 + (rr1 - 0xDC00)) @ unquote (drop 10 r)
                   else EncodeRune 0xFFFD @ unquote (drop 4 r))
                else EncodeRune rr @ unquote (drop 4 r))
             else (if e = CHR ''b'' then CHR 0x08 else if e = CHR ''f'' then CHR 0x0C
                   else if e = CHR ''n'' then CHR 0x0A else if e = CHR ''r'' then CHR 0x0D
                   else if e = CHR ''t'' then CHR 0x09 else e) # unquote r)
      else if c < CHR 0x80 then c # unquote cs
      else if rune_len (c # cs) = 0 then EncodeRune 0xFFFD @ unquote cs
      else take (rune_len (c # cs)) (c # cs) @ unquote (drop (rune_len (c # cs) - 1) cs))"
  by pat_completeness auto
termination
  by (relation "measure length") auto

text \<open>A number literal at the head of a string, and what follows it.\<close>

definition scan_digits :: "string \<Rightarrow> (string \<times> string) option" where
  "scan_digits s = (if takeWhile isDigit s = [] then None else Some (takeWhile isDigit s, dropWhile isDigit s))"

definition scan_number :: "string \<Rightarrow> (string \<times> string) option" where
  "scan_number s =
     (let (sign, s1) = (case expect CHR ''-'' s of Some r \<Rightarrow> (''-'', r) | None \<Rightarrow> ([], s)) in
      case (case s1 of
              [] \<Rightarrow> None
            | d # r \<Rightarrow> if d = CHR ''0'' then Some (''0'', r)
                       else if isDigit d then Some (d # takeWhile isDigit r, dropWhile isDigit r)
                       else None) of
        None \<Rightarrow> None
      | Some (ip, s2) \<Rightarrow>
          (case (case expect CHR ''.'' s2 of
                   None \<Rightarrow> Some ([], s2)
                 | Some r \<Rightarrow> (case scan_digits r of None \<Rightarrow> None | Some (ds, r') \<Rightarrow> Some (''.'' @ ds, r'))) of
             None \<Rightarrow> None
           | Some (fp, s3) \<Rightarrow>
               (case s3 of
                  [] \<Rightarrow> Some (sign @ ip @ fp, s3)
                | x # r \<Rightarrow>
                    if x = CHR ''e'' \<or> x = CHR ''E'' then
                      (let (es, r1) = (case r of [] \<Rightarrow> ([], r)
                                       | y # r' \<Rightarrow> if y = CHR ''+'' \<or> y = CHR ''-'' then ([y], r') else ([], r))
                       in case scan_digits r1 of None \<Rightarrow> None
                          | Some (ds, r2) \<Rightarrow> Some (sign @ ip @ fp @ [x] @ es @ ds, r2))
                    else Some (sign @ ip @ fp, s3))))"

text \<open>
  One JSON value at the head of a string, after optional white space, and what follows
  it.  The first argument bounds the depth of the recursion; the length of the text is
  enough.  The second counts the arrays and objects that are open: the scanner of the
  package refuses a text that nests them more than 10000 deep.
\<close>

definition maxNestingDepth :: int where
  "maxNestingDepth = 10000"

fun parse_value :: "nat \<Rightarrow> int \<Rightarrow> string \<Rightarrow> (json \<times> string) option"
  and parse_elements :: "nat \<Rightarrow> int \<Rightarrow> string \<Rightarrow> (json list \<times> string) option"
  and parse_members :: "nat \<Rightarrow> int \<Rightarrow> string \<Rightarrow> ((string \<times> json) list \<times> string) option"
where
  "parse_value 0 d s = None"
| "parse_value (Suc n) d s =
     (case skipSpace s of
        [] \<Rightarrow> None
      | c # cs \<Rightarrow>
          if c = CHR ''{'' then
            (if d + 1 > maxNestingDepth then None
             else case expect CHR ''}'' (skipSpace cs) of
                    Some r \<Rightarrow> Some (JObject [], r)
                  | None \<Rightarrow> (case parse_members n (d + 1) cs of None \<Rightarrow> None
                             | Some (ms, r) \<Rightarrow> Some (JObject ms, r)))
          else if c = CHR ''['' then
            (if d + 1 > maxNestingDepth then None
             else case expect CHR '']'' (skipSpace cs) of
                    Some r \<Rightarrow> Some (JArray [], r)
                  | None \<Rightarrow> (case parse_elements n (d + 1) cs of None \<Rightarrow> None
                             | Some (vs, r) \<Rightarrow> Some (JArray vs, r)))
          else if c = CHR 0x22 then
            (case scan_string cs of None \<Rightarrow> None | Some (raw, r) \<Rightarrow> Some (JQuoted raw, r))
          else if c = CHR ''-'' \<or> isDigit c then
            (case scan_number (c # cs) of None \<Rightarrow> None | Some (lit, r) \<Rightarrow> Some (JNumber lit, r))
          else if take 4 (c # cs) = ''true'' then Some (JBool True, drop 4 (c # cs))
          else if take 5 (c # cs) = ''false'' then Some (JBool False, drop 5 (c # cs))
          else if take 4 (c # cs) = ''null'' then Some (JNull, drop 4 (c # cs))
          else None)"
| "parse_elements 0 d s = None"
| "parse_elements (Suc n) d s =
     (case parse_value n d s of
        None \<Rightarrow> None
      | Some (v, r) \<Rightarrow>
          (case expect CHR '','' (skipSpace r) of
             Some r' \<Rightarrow> (case parse_elements n d r' of None \<Rightarrow> None
                         | Some (vs, r'') \<Rightarrow> Some (v # vs, r''))
           | None \<Rightarrow> (case expect CHR '']'' (skipSpace r) of None \<Rightarrow> None | Some r' \<Rightarrow> Some ([v], r'))))"
| "parse_members 0 d s = None"
| "parse_members (Suc n) d s =
     (case expect CHR 0x22 (skipSpace s) of
        None \<Rightarrow> None
      | Some cs \<Rightarrow>
          (case scan_string cs of
             None \<Rightarrow> None
           | Some (raw, r) \<Rightarrow>
               (case expect CHR '':'' (skipSpace r) of
                  None \<Rightarrow> None
                | Some r1 \<Rightarrow>
                    (case parse_value n d r1 of
                       None \<Rightarrow> None
                     | Some (v, r2) \<Rightarrow>
                         (case expect CHR '','' (skipSpace r2) of
                            Some r3 \<Rightarrow>
                              (case parse_members n d r3 of None \<Rightarrow> None
                               | Some (ms, r4) \<Rightarrow> Some ((unquote raw, v) # ms, r4))
                          | None \<Rightarrow>
                              (case expect CHR ''}'' (skipSpace r2) of None \<Rightarrow> None
                               | Some r3 \<Rightarrow> Some ([(unquote raw, v)], r3)))))))"

definition json_value :: "string \<Rightarrow> (json \<times> string) option" where
  "json_value s = parse_value (Suc (length s)) 0 s"

text \<open>
  Storing a value.  A decoder takes the JSON value and the current content of the Go
  variable, and returns the new content with the first error met, if any; decoding goes
  on after a value of the wrong type, as in Go.  \<open>null\<close> leaves a string, a number or a
  struct as it is and clears a pointer or a slice.  The errors of the package are kept
  by kind only: a value of the wrong type, a text that is not a JSON value (malformed or
  cut short), and an empty stream.  The three texts below name the kind; they are not the
  messages of the package, which also tell the value, the field, the type and the offset.
\<close>

type_synonym 'a decoder = "json \<Rightarrow> 'a \<Rightarrow> 'a \<times> error option"

definition UnmarshalTypeError :: error where
  "UnmarshalTypeError = Errorf ''json: cannot unmarshal value into Go value''"

definition SyntaxError :: error where
  "SyntaxError = Errorf ''json: text is not a JSON value''"

definition EOF :: error where
  "EOF = Errorf ''EOF''"

definition saveError :: "error option \<Rightarrow> error option \<Rightarrow> error option" where
  "saveError saved err = (case saved of None \<Rightarrow> err | Some e \<Rightarrow> Some e)"

definition decodeString :: "string decoder" where
  "decodeString v old =
     (case v of
        JQuoted raw \<Rightarrow> (unquote raw, None)
      | JString s \<Rightarrow> (s, None)
      | JNull \<Rightarrow> (old, None)
      | _ \<Rightarrow> (old, Some UnmarshalTypeError))"

text \<open>\<open>strconv.ParseInt(lit, 10, 64)\<close> on a number literal of the JSON grammar.\<close>

definition ParseInt :: "string \<Rightarrow> int option" where
  "ParseInt lit =
     (let ds = (if take 1 lit = ''-'' then drop 1 lit else lit);
          n = foldl (\<lambda>a d. a * 10 + (of_char d - 48)) (0::int) ds;
          i = (if take 1 lit = ''-'' then - n else n)
      in if ds \<noteq> [] \<and> list_all isDigit ds \<and> - (2 ^ 63) \<le> i \<and> i < 2 ^ 63 then Some i else None)"

definition decodeInt :: "int decoder" where
  "decodeInt v old =
     (case v of
        JNumber lit \<Rightarrow> (case ParseInt lit of Some i \<Rightarrow> (i, None) | None \<Rightarrow> (old, Some UnmarshalTypeError))
      | JNull \<Rightarrow> (old, None)
      | _ \<Rightarrow> (old, Some UnmarshalTypeError))"

text \<open>
  A key of the document selects the struct field whose name it equals, or else equals
  when letter case is folded.  Folding maps the ASCII letters to upper case, and U+017F
  and U+212A to \<open>S\<close> and \<open>K\<close>.  The field names of the structs below are ASCII and differ
  from each other after folding, so a key selects the field with the same folded name.
\<close>

fun foldName :: "string \<Rightarrow> string" where
  "foldName (a # b # c # cs) =
     (if a = CHR 0xE2 \<and> b = CHR 0x84 \<and> c = CHR 0xAA then CHR ''K'' # foldName cs
      else if a = CHR 0xC5 \<and> b = CHR 0xBF then CHR ''S'' # foldName (c # cs)
      else upper_byte a # foldName (b # c # cs))"
| "foldName [a, b] =
     (if a = CHR 0xC5 \<and> b = CHR 0xBF then [CHR ''S''] else [upper_byte a, upper_byte b])"
| "foldName [a] = [upper_byte a]"
| "foldName [] = []"

fun decodeFields :: "(string \<Rightarrow> 'a decoder) \<Rightarrow> (string \<times> json) list \<Rightarrow> 'a \<Rightarrow> 'a \<times> error option" where
  "decodeFields field [] x = (x, None)"
| "decodeFields field ((key, v) # ms) x =
     (let (x1, e1) = field (foldName key) v x;
          (x2, e2) = decodeFields field ms x1
      in (x2, saveError e1 e2))"

definition decodeStruct :: "(string \<Rightarrow> 'a decoder) \<Rightarrow> 'a decoder" where
  "decodeStruct field v old =
     (case v of
        JObject ms \<Rightarrow> decodeFields field ms old
      | JNull \<Rightarrow> (old, None)
      | _ \<Rightarrow> (old, Some UnmarshalTypeError))"

text \<open>
  An array is stored into a slice element by element; an element that the slice already
  has is decoded into, the others start from the zero value.
\<close>

fun decodeElements :: "'a decoder \<Rightarrow> 'a \<Rightarrow> json list \<Rightarrow> 'a list \<Rightarrow> 'a list \<times> error option" where
  "decodeElements elem zero [] old = ([], None)"
| "decodeElements elem zero (v # vs) old =
     (let (x, e1) = elem v (case old of [] \<Rightarrow> zero | y # ys \<Rightarrow> y);
          (xs, e2) = decodeElements elem zero vs (tl old)
      in (x # xs, saveError e1 e2))"

definition decodeSlice :: "'a decoder \<Rightarrow> 'a \<Rightarrow> 'a list decoder" where
  "decodeSlice elem zero v old =
     (case v of
        JArray vs \<Rightarrow> decodeElements elem zero vs old
      | JNull \<Rightarrow> ([], None)
      | _ \<Rightarrow> (old, Some UnmarshalTypeError))"

definition decodePointer :: "'a decoder \<Rightarrow> 'a \<Rightarrow> 'a option decoder" where
  "decodePointer target zero v old =
     (case v of
        JNull \<Rightarrow> (None, None)
      | _ \<Rightarrow> (let (x, e) = target v (case old of None \<Rightarrow> zero | Some y \<Rightarrow> y) in (Some x, e)))"

text \<open>
  \<open>json.Unmarshal\<close> accepts a text that is one JSON value between optional white space.
\<close>

definition Unmarshal :: "'a decoder \<Rightarrow> 'a \<Rightarrow> string \<Rightarrow> error + 'a" where
  "Unmarshal target zero data =
     (case json_value data of
        None \<Rightarrow> Inl SyntaxError
      | Some (v, rest) \<Rightarrow>
          if skipSpace rest \<noteq> [] then Inl SyntaxError
          else (case target v zero of (x, None) \<Rightarrow> Inr x | (x, Some e) \<Rightarrow> Inl e))"

text \<open>
  \<open>json.NewDecoder(r).Decode\<close> reads the first value of the stream and leaves the rest.  An
  object or an array ends at its closing bracket.  Any other value ends at the first byte
  that does not continue it, whatever that byte is, or at the end of the stream; at the
  end of the stream the value counts only if the stream ended without an error.  The
  stream is given by the bytes it delivers and the error, if any, that ends it; when no
  value can be read from the bytes, that error is the result.
\<close>

definition isCompound :: "json \<Rightarrow> bool" where
  "isCompound v = (case v of JObject ms \<Rightarrow> True | JArray vs \<Rightarrow> True | _ \<Rightarrow> False)"

definition Decode :: "'a decoder \<Rightarrow> 'a \<Rightarrow> string \<Rightarrow> error option \<Rightarrow> error + 'a" where
  "Decode target zero data readErr =
     (case json_value data of
        Some (v, rest) \<Rightarrow>
          if isCompound v \<or> rest \<noteq> [] \<or> readErr = None then
            (case target v zero of (x, None) \<Rightarrow> Inr x | (x, Some e) \<Rightarrow> Inl e)
          else Inl (the readErr)
      | None \<Rightarrow>
          (case readErr of
             Some e \<Rightarrow> Inl e
           | None \<Rightarrow> if skipSpace data = [] then Inl EOF else Inl SyntaxError))"

section \<open>Package jobs: data\<close>

text \<open>
  A \<open>time.Time\<close> field is kept as the text it was decoded from; its zero value is the
  empty text.  \<open>Time.UnmarshalJSON\<close> takes the string as it is written between the quotes
  and accepts what \<open>time.Parse\<close> accepts for the layout \<open>2006-01-02T15:04:05Z07:00\<close>: a year
  of four digits, month, day, minute and second of two digits, an hour of one or two
  digits, after the seconds an optional fraction (a period or a comma and digits), and
  the zone \<open>Z\<close> or a sign with hours up to 24 and minutes up to 60.
\<close>

definition getnum :: "string \<Rightarrow> bool \<Rightarrow> (nat \<times> string) option" where
  "getnum s fixed =
     (case s of
        [] \<Rightarrow> None
      | a # r \<Rightarrow>
          if \<not> isDigit a then None
          else (case r of
                  [] \<Rightarrow> if fixed then None else Some (of_char a - 48, r)
                | b # r' \<Rightarrow>
                    if isDigit b then Some ((of_char a - 48) * 10 + (of_char b - 48), r')
                    else if fixed then None else Some (of_char a - 48, r)))"

definition longYear :: "string \<Rightarrow> (nat \<times> string) option" where
  "longYear s =
     (if length s \<ge> 4 \<and> list_all isDigit (take 4 s)
      then Some (foldl (\<lambda>a d. a * 10 + (of_char d - 48)) 0 (take 4 s), drop 4 s) else None)"

definition daysIn :: "nat \<Rightarrow> nat \<Rightarrow> nat" where
  "daysIn month year =
     (if month = 2 then (if year mod 4 = 0 \<and> (year mod 100 \<noteq> 0 \<or> year mod 400 = 0) then 29 else 28)
      else if month = 4 \<or> month = 6 \<or> month = 9 \<or> month = 11 then 30 else 31)"

text \<open>The fraction of a second, if one follows, is passed over.\<close>

definition skipFraction :: "string \<Rightarrow> string" where
  "skipFraction s =
     (case s of
        a # b # r \<Rightarrow> if (a = CHR ''.'' \<or> a = CHR '','') \<and> isDigit b then dropWhile isDigit r else s
      | _ \<Rightarrow> s)"

text \<open>The zone at the head of a text; the result is what follows it.\<close>

definition ISO8601ColonTZ :: "string \<Rightarrow> string option" where
  "ISO8601ColonTZ s =
     (if take 1 s = ''Z'' then Some (drop 1 s)
      else if length s < 6 \<or> s ! 3 \<noteq> CHR '':'' then None
      else (case (getnum (take 2 (drop 1 s)) True, getnum (take 2 (drop 4 s)) True) of
              (Some (hr, r1), Some (mm, r2)) \<Rightarrow>
                if hr > 24 \<or> mm > 60 then None
                else if s ! 0 = CHR ''+'' \<or> s ! 0 = CHR ''-'' then Some (drop 6 s)
                else None
            | _ \<Rightarrow> None))"

text \<open>The date of the layout, \<open>2006-01-02\<close>: year, month and day, and what follows.\<close>

definition parse_date :: "string \<Rightarrow> ((nat \<times> nat \<times> nat) \<times> string) option" where
  "parse_date s =
     (case longYear s of None \<Rightarrow> None | Some (year, s1) \<Rightarrow>
      case expect CHR ''-'' s1 of None \<Rightarrow> None | Some s2 \<Rightarrow>
      case getnum s2 True of None \<Rightarrow> None | Some (month, s3) \<Rightarrow>
        if month = 0 \<or> 12 < month then None else
      case expect CHR ''-'' s3 of None \<Rightarrow> None | Some s4 \<Rightarrow>
      case getnum s4 True of None \<Rightarrow> None | Some (day, s5) \<Rightarrow> Some ((year, month, day), s5))"

text \<open>The time of day of the layout, \<open>15:04:05\<close>, with the fraction that may follow it.\<close>

definition parse_clock :: "string \<Rightarrow> string option" where
  "parse_clock s =
     (case getnum s False of None \<Rightarrow> None | Some (hour, s1) \<Rightarrow>
        if 24 \<le> hour then None else
      case expect CHR '':'' s1 of None \<Rightarrow> None | Some s2 \<Rightarrow>
      case getnum s2 True of None \<Rightarrow> None | Some (minute, s3) \<Rightarrow>
        if 60 \<le> minute then None else
      case expect CHR '':'' s3 of None \<Rightarrow> None | Some s4 \<Rightarrow>
      case getnum s4 True of None \<Rightarrow> None | Some (second, s5) \<Rightarrow>
        if 60 \<le> second then None else Some (skipFraction s5))"

definition Parse_RFC3339 :: "string \<Rightarrow> bool" where
  "Parse_RFC3339 s =
     (case parse_date s of None \<Rightarrow> False | Some ((year, month, day), s1) \<Rightarrow>
      case expect CHR ''T'' s1 of None \<Rightarrow> False | Some s2 \<Rightarrow>
      case parse_clock s2 of None \<Rightarrow> False | Some s3 \<Rightarrow>
      case ISO8601ColonTZ s3 of None \<Rightarrow> False | Some s4 \<Rightarrow>
        s4 = [] \<and> 1 \<le> day \<and> day \<le> daysIn month year)"

definition decodeTime :: "string decoder" where
  "decodeTime v old =
     (case v of
        JQuoted raw \<Rightarrow>
          if Parse_RFC3339 raw then (raw, None) else (old, Some (Errorf ''parsing time: cannot parse''))
      | JString s \<Rightarrow>
          if Parse_RFC3339 s then (s, None) else (old, Some (Errorf ''parsing time: cannot parse''))
      | JNull \<Rightarrow> (old, None)
      | _ \<Rightarrow> (old, Some (Errorf ''Time.UnmarshalJSON: input is not a JSON string'')))"

record SpoolFile =
  ID :: int
  DDName :: string
  StepName :: string
  ProcStep :: string
  Class :: string
  Records :: int
  Bytes :: int
  URL :: string
  ContentURL :: string

definition zeroSpoolFile :: SpoolFile where
  "zeroSpoolFile = \<lparr>ID = 0, DDName = [], StepName = [], ProcStep = [], Class = [], Records = 0,
     Bytes = 0, URL = [], ContentURL = []\<rparr>"

definition on :: "'f decoder \<Rightarrow> ('a \<Rightarrow> 'f) \<Rightarrow> ('f \<Rightarrow> 'a) \<Rightarrow> 'a decoder" where
  "on d get put v x = (let (y, e) = d v (get x) in (put y, e))"

definition SpoolFile_field :: "string \<Rightarrow> SpoolFile decoder" where
  "SpoolFile_field key v x =
     (if key = foldName ''id'' then on decodeInt ID (\<lambda>y. x\<lparr>ID := y\<rparr>) v x
      else if key = foldName ''ddname'' then on decodeString DDName (\<lambda>y. x\<lparr>DDName := y\<rparr>) v x
      else if key = foldName ''stepname'' then on decodeString StepName (\<lambda>y. x\<lparr>StepName := y\<rparr>) v x
      else if key = foldName ''procstep'' then on decodeString ProcStep (\<lambda>y. x\<lparr>ProcStep := y\<rparr>) v x
      else if key = foldName ''class'' then on decodeString Class (\<lambda>y. x\<lparr>Class := y\<rparr>) v x
      else if key = foldName ''records'' then on decodeInt Records (\<lambda>y. x\<lparr>Records := y\<rparr>) v x
      else if key = foldName ''bytes'' then on decodeInt Bytes (\<lambda>y. x\<lparr>Bytes := y\<rparr>) v x
      else if key = foldName ''url'' then on decodeString URL (\<lambda>y. x\<lparr>URL := y\<rparr>) v x
      else if key = foldName ''content-url'' then on decodeString ContentURL (\<lambda>y. x\<lparr>ContentURL := y\<rparr>) v x
      else (x, None))"

definition decodeSpoolFile :: "SpoolFile decoder" where
  "decodeSpoolFile = decodeStruct SpoolFile_field"

record JobInfo =
  JobID :: string
  JobName :: string
  Owner :: string
  Status :: string
  Subsystem :: string
  Type :: string
  Class :: string
  PhaseName :: string
  PhaseNumber :: int
  RetCode :: string
  URL :: string
  FilesURL :: string
  JobCorrelator :: string
  ExecutionClass :: string
  ExecutionMode :: string
  CreationDate :: string
  ModificationDate :: string

definition zeroJobInfo :: JobInfo where
  "zeroJobInfo = \<lparr>JobID = [], JobName = [], Owner = [], Status = [], Subsystem = [], Type = [],
     Class = [], PhaseName = [], PhaseNumber = 0, RetCode = [], URL = [], FilesURL = [],
     JobCorrelator = [], ExecutionClass = [], ExecutionMode = [], CreationDate = [],
     ModificationDate = []\<rparr>"

definition JobInfo_field :: "string \<Rightarrow> JobInfo decoder" where
  "JobInfo_field key v x =
     (if key = foldName ''jobid'' then on decodeString JobID (\<lambda>y. x\<lparr>JobID := y\<rparr>) v x
      else if key = foldName ''jobname'' then on decodeString JobName (\<lambda>y. x\<lparr>JobName := y\<rparr>) v x
      else if key = foldName ''owner'' then on decodeString Owner (\<lambda>y. x\<lparr>Owner := y\<rparr>) v x
      else if key = foldName ''status'' then on decodeString Status (\<lambda>y. x\<lparr>Status := y\<rparr>) v x
      else if key = foldName ''subsystem'' then on decodeString Subsystem (\<lambda>y. x\<lparr>Subsystem := y\<rparr>) v x
      else if key = foldName ''type'' then on decodeString Type (\<lambda>y. x\<lparr>Type := y\<rparr>) v x
      else if key = foldName ''class'' then on decodeString JobInfo.Class (\<lambda>y. x\<lparr>JobInfo.Class := y\<rparr>) v x
      else if key = foldName ''phase-name'' then on decodeString PhaseName (\<lambda>y. x\<lparr>PhaseName := y\<rparr>) v x
      else if key = foldName ''phase-number'' then on decodeInt PhaseNumber (\<lambda>y. x\<lparr>PhaseNumber := y\<rparr>) v x
      else if key = foldName ''retcode'' then on decodeString RetCode (\<lambda>y. x\<lparr>RetCode := y\<rparr>) v x
      else if key = foldName ''url'' then on decodeString JobInfo.URL (\<lambda>y. x\<lparr>JobInfo.URL := y\<rparr>) v x
      else if key = foldName ''files-url'' then on decodeString FilesURL (\<lambda>y. x\<lparr>FilesURL := y\<rparr>) v x
      else if key = foldName ''job-correlator'' then on decodeString JobCorrelator (\<lambda>y. x\<lparr>JobCorrelator := y\<rparr>) v x
      else if key = foldName ''execution-class'' then on decodeString ExecutionClass (\<lambda>y. x\<lparr>ExecutionClass := y\<rparr>) v x
      else if key = foldName ''execution-mode'' then on decodeString ExecutionMode (\<lambda>y. x\<lparr>ExecutionMode := y\<rparr>) v x
      else if key = foldName ''creation-date'' then on decodeTime CreationDate (\<lambda>y. x\<lparr>CreationDate := y\<rparr>) v x
      else if key = foldName ''modification-date'' then on decodeTime ModificationDate (\<lambda>y. x\<lparr>ModificationDate := y\<rparr>) v x
      else (x, None))"

definition decodeJobInfo :: "JobInfo decoder" where
  "decodeJobInfo = decodeStruct JobInfo_field"

record Job =
  JobID :: string
  JobName :: string
  Owner :: string
  Status :: string
  Subsystem :: string
  Type :: string
  Class :: string
  PhaseName :: string
  PhaseNumber :: int
  RetCode :: string
  URL :: string
  FilesURL :: string
  JobCorrelator :: string
  ExecutionClass :: string
  ExecutionMode :: string
  JobInfo :: "JobInfo option"
  SpoolFiles :: "SpoolFile list"

definition zeroJob :: Job where
  "zeroJob = \<lparr>JobID = [], JobName = [], Owner = [], Status = [], Subsystem = [], Type = [],
     Class = [], PhaseName = [], PhaseNumber = 0, RetCode = [], URL = [], FilesURL = [],
     JobCorrelator = [], ExecutionClass = [], ExecutionMode = [], JobInfo = None, SpoolFiles = []\<rparr>"

definition Job_field :: "string \<Rightarrow> Job decoder" where
  "Job_field key v x =
     (if key = foldName ''jobid'' then on decodeString Job.JobID (\<lambda>y. x\<lparr>Job.JobID := y\<rparr>) v x
      else if key = foldName ''jobname'' then on decodeString Job.JobName (\<lambda>y. x\<lparr>Job.JobName := y\<rparr>) v x
      else if key = foldName ''owner'' then on decodeString Job.Owner (\<lambda>y. x\<lparr>Job.Owner := y\<rparr>) v x
      else if key = foldName ''status'' then on decodeString Job.Status (\<lambda>y. x\<lparr>Job.Status := y\<rparr>) v x
      else if key = foldName ''subsystem'' then on decodeString Job.Subsystem (\<lambda>y. x\<lparr>Job.Subsystem := y\<rparr>) v x
      else if key = foldName ''type'' then on decodeString Job.Type (\<lambda>y. x\<lparr>Job.Type := y\<rparr>) v x
      else if key = foldName ''class'' then on decodeString Job.Class (\<lambda>y. x\<lparr>Job.Class := y\<rparr>) v x
      else if key = foldName ''phase-name'' then on decodeString Job.PhaseName (\<lambda>y. x\<lparr>Job.PhaseName := y\<rparr>) v x
      else if key = foldName ''phase-number'' then on decodeInt Job.PhaseNumber (\<lambda>y. x\<lparr>Job.PhaseNumber := y\<rparr>) v x
      else if key = foldName ''retcode'' then on decodeString Job.RetCode (\<lambda>y. x\<lparr>Job.RetCode := y\<rparr>) v x
      else if key = foldName ''url'' then on decodeString Job.URL (\<lambda>y. x\<lparr>Job.URL := y\<rparr>) v x
      else if key = foldName ''files-url'' then on decodeString Job.FilesURL (\<lambda>y. x\<lparr>Job.FilesURL := y\<rparr>) v x
      else if key = foldName ''job-correlator'' then on decodeString Job.JobCorrelator (\<lambda>y. x\<lparr>Job.JobCorrelator := y\<rparr>) v x
      else if key = foldName ''execution-class'' then on decodeString Job.ExecutionClass (\<lambda>y. x\<lparr>Job.ExecutionClass := y\<rparr>) v x
      else if key = foldName ''execution-mode'' then on decodeString Job.ExecutionMode (\<lambda>y. x\<lparr>Job.ExecutionMode := y\<rparr>) v x
      else if key = foldName ''job-info'' then
        on (decodePointer decodeJobInfo zeroJobInfo) JobInfo (\<lambda>y. x\<lparr>JobInfo := y\<rparr>) v x
      else if key = foldName ''spool-files'' then
        on (decodeSlice decodeSpoolFile zeroSpoolFile) SpoolFiles (\<lambda>y. x\<lparr>SpoolFiles := y\<rparr>) v x
      else (x, None))"

definition decodeJob :: "Job decoder" where
  "decodeJob = decodeStruct Job_field"

record JobList =
  Jobs :: "Job list"

definition JobList_field :: "string \<Rightarrow> JobList decoder" where
  "JobList_field key v x =
     (if key = foldName ''jobs'' then on (decodeSlice decodeJob zeroJob) Jobs (\<lambda>y. x\<lparr>Jobs := y\<rparr>) v x
      else (x, None))"

definition decodeJobList :: "JobList decoder" where
  "decodeJobList = decodeStruct JobList_field"

record SubmitJobResponse =
  JobID :: string
  JobName :: string
  Owner :: string
  Status :: string
  URL :: string

definition zeroSubmitJobResponse :: SubmitJobResponse where
  "zeroSubmitJobResponse = \<lparr>JobID = [], JobName = [], Owner = [], Status = [], URL = []\<rparr>"

definition SubmitJobResponse_field :: "string \<Rightarrow> SubmitJobResponse decoder" where
  "SubmitJobResponse_field key v x =
     (if key = foldName ''jobid'' then on decodeString SubmitJobResponse.JobID (\<lambda>y. x\<lparr>SubmitJobResponse.JobID := y\<rparr>) v x
      else if key = foldName ''jobname'' then on decodeString SubmitJobResponse.JobName (\<lambda>y. x\<lparr>SubmitJobResponse.JobName := y\<rparr>) v x
      else if key = foldName ''owner'' then on decodeString SubmitJobResponse.Owner (\<lambda>y. x\<lparr>SubmitJobResponse.Owner := y\<rparr>) v x
      else if key = foldName ''status'' then on decodeString SubmitJobResponse.Status (\<lambda>y. x\<lparr>SubmitJobResponse.Status := y\<rparr>) v x
      else if key = foldName ''url'' then on decodeString SubmitJobResponse.URL (\<lambda>y. x\<lparr>SubmitJobResponse.URL := y\<rparr>) v x
      else (x, None))"

definition decodeSubmitJobResponse :: "SubmitJobResponse decoder" where
  "decodeSubmitJobResponse = decodeStruct SubmitJobResponse_field"

record JobFilter =
  Owner :: string
  Prefix :: string
  MaxJobs :: int
  JobID :: string
  JobName :: string
  Status :: string
  UserCorrelator :: string

section \<open>The network, the clock and package net/url\<close>

text \<open>
  \<open>url.PathEscape\<close> and \<open>url.QueryEscape\<close>: a byte that must be escaped becomes \<open>%\<close> and two
  upper-case hexadecimal digits, and a space in a query component becomes \<open>+\<close>.
\<close>

definition isAlnum :: "char \<Rightarrow> bool" where
  "isAlnum c = ((CHR ''a'' \<le> c \<and> c \<le> CHR ''z'') \<or> (CHR ''A'' \<le> c \<and> c \<le> CHR ''Z'') \<or>
                (CHR ''0'' \<le> c \<and> c \<le> CHR ''9''))"

definition shouldEscape_PathSegment :: "char \<Rightarrow> bool" where
  "shouldEscape_PathSegment c =
     (if isAlnum c then False
      else if c \<in> set ''-_.~'' then False
      else if c \<in> set ''$&+,/:;=?@'' then (c = CHR ''/'' \<or> c = CHR '';'' \<or> c = CHR '','' \<or> c = CHR ''?'')
      else True)"

definition shouldEscape_QueryComponent :: "char \<Rightarrow> bool" where
  "shouldEscape_QueryComponent c =
     (if isAlnum c then False
      else if c \<in> set ''-_.~'' then False
      else True)"

definition upperhex :: string where
  "upperhex = ''0123456789ABCDEF''"

definition percent :: "char \<Rightarrow> string" where
  "percent c = [CHR ''%'', upperhex ! (of_char c div 16), upperhex ! (of_char c mod 16)]"

fun PathEscape :: "string \<Rightarrow> string" where
  "PathEscape [] = []"
| "PathEscape (c # cs) =
     (if shouldEscape_PathSegment c then percent c @ PathEscape cs else c # PathEscape cs)"

fun QueryEscape :: "string \<Rightarrow> string" where
  "QueryEscape [] = []"
| "QueryEscape (c # cs) =
     (if c = CHR '' '' then CHR ''+'' # QueryEscape cs
      else if shouldEscape_QueryComponent c then percent c @ QueryEscape cs
      else c # QueryEscape cs)"

text \<open>
  A request as the client builds it.  The body is absent, a text, or the JSON encoding of
  a value; for the latter the value is kept, with the keys in the order of the map
  literal in the source (\<open>json.Marshal\<close> writes the keys of a map sorted).  Header names
  are the ones the session holds, which \<open>NewSession\<close> creates in canonical form.
\<close>

datatype body = NoBody | TextBody string | JSONBody json

record Request =
  Method :: string
  URL :: string
  Header :: "string \<rightharpoonup> string"
  Body :: body

text \<open>
  A response: the status code, the bytes that reading the body delivers, and the error
  that ends the reading, if there is one.
\<close>

record Response =
  StatusCode :: int
  Body :: string
  BodyErr :: "error option"

text \<open>
  The world outside the client.  \<open>server w n req\<close> is the outcome of the round trip for
  \<open>req\<close> when \<open>n\<close> requests were sent before it: a transport error or a response.
  \<open>url_Parse\<close> is the verdict of \<open>net/url\<close> on the text of a URL, which decides whether
  \<open>http.NewRequest\<close> succeeds.  \<open>requests\<close> and \<open>sleeps\<close> record what the client did.
  \<open>clock\<close> is the monotonic time in nanoseconds; the \<open>n\<close>-th round trip takes
  \<open>latency w n\<close> and the \<open>n\<close>-th sleep lasts \<open>oversleep w n\<close> longer than asked.  \<open>lapse\<close> is
  the time that passes between \<open>time.Now\<close> and the statement after it.
\<close>

record world =
  url_Parse :: "string \<Rightarrow> error option"
  server :: "nat \<Rightarrow> Request \<Rightarrow> error + Response"
  latency :: "nat \<Rightarrow> nat"
  oversleep :: "nat \<Rightarrow> nat"
  lapse :: nat
  requests :: "Request list"
  sleeps :: "int list"
  clock :: int

definition NewRequest :: "string \<Rightarrow> string \<Rightarrow> body \<Rightarrow> world \<Rightarrow> error + Request" where
  "NewRequest method url b w =
     (case url_Parse w url of
        Some err \<Rightarrow> Inl err
      | None \<Rightarrow> Inr \<lparr>Method = method, URL = url, Header = Map.empty, Body = b\<rparr>)"

definition Do :: "Request \<Rightarrow> world \<Rightarrow> (error + Response) \<times> world" where
  "Do req w =
     (server w (length (requests w)) req,
      w\<lparr>requests := requests w @ [req],
        clock := clock w + int (latency w (length (requests w)))\<rparr>)"

text \<open>\<open>time.Sleep\<close> returns at once for a duration that is not positive.\<close>

definition Sleep :: "int \<Rightarrow> world \<Rightarrow> world" where
  "Sleep d w =
     w\<lparr>sleeps := sleeps w @ [d],
       clock := clock w + (if d \<le> 0 then 0 else d + int (oversleep w (length (sleeps w))))\<rparr>"

text \<open>\<open>time.Now\<close> gives the reading of the clock; the clock goes on while it returns.\<close>

definition Now :: "world \<Rightarrow> int \<times> world" where
  "Now w = (clock w, w\<lparr>clock := clock w + int (lapse w)\<rparr>)"

text \<open>\<open>time.Since\<close> on the monotonic clock; a \<open>Duration\<close> holds at most \<open>2^63 - 1\<close>.\<close>

definition Since :: "int \<Rightarrow> world \<Rightarrow> int" where
  "Since start w = min (clock w - start) (2 ^ 63 - 1)"

text \<open>
  Every method of the client sends its request by the same statements: create the
  request, copy the headers of the session, set the content type if the method sets one,
  and let the HTTP client do the round trip.
\<close>

definition roundTrip ::
  "Session \<Rightarrow> string \<Rightarrow> string \<Rightarrow> body \<Rightarrow> string option \<Rightarrow> world \<Rightarrow> (error + Response) \<times> world" where
  "roundTrip session method apiURL b contentType w =
     (case NewRequest method apiURL b w of
        Inl err \<Rightarrow> (Inl (Errorf_w ''failed to create request: '' err), w)
      | Inr req \<Rightarrow>
          (let req = req\<lparr>Header := Headers session\<rparr>;
               req = (case contentType of None \<Rightarrow> req
                      | Some ct \<Rightarrow> req\<lparr>Header := (Header req)(''Content-Type'' \<mapsto> ct)\<rparr>)
           in case Do req w of
                (Inl err, w') \<Rightarrow> (Inl (Errorf_w ''failed to make request: '' err), w')
              | (Inr resp, w') \<Rightarrow> (Inr resp, w')))"

definition statusError :: "Response \<Rightarrow> error" where
  "statusError resp =
     Errorf (''API request failed with status '' @ Itoa (StatusCode resp) @ '': '' @ Response.Body resp)"

section \<open>Package datasets: requests\<close>

record UploadRequest =
  DatasetName :: string
  MemberName :: string
  Content :: string
  Encoding :: string
  Replace :: bool

definition UploadContent :: "Session \<Rightarrow> UploadRequest \<Rightarrow> world \<Rightarrow> error option \<times> world" where
  "UploadContent session request w =
     (let apiURL =
        (if MemberName request \<noteq> [] then
           BaseURL session @ ''/restfiles/ds/'' @ PathEscape (DatasetName request) @ ''('' @
             PathEscape (MemberName request) @ '')''
         else BaseURL session @ ''/restfiles/ds/'' @ PathEscape (DatasetName request))
      in case roundTrip session ''PUT'' apiURL (TextBody (Content request)) (Some ''text/plain'') w of
           (Inl err, w') \<Rightarrow> (Some err, w')
         | (Inr resp, w') \<Rightarrow>
             if StatusCode resp \<noteq> 201 \<and> StatusCode resp \<noteq> 200 \<and> StatusCode resp \<noteq> 204
             then (Some (statusError resp), w') else (None, w'))"

definition maxRetries :: nat where
  "maxRetries = 3"

definition retryDelay :: int where
  "retryDelay = 1000000000 * 2"

definition isRetryable :: "error \<Rightarrow> bool" where
  "isRetryable err =
     (let errorStr = ToLower (Error_text err)
      in Contains errorStr ''isrz002'' \<or> Contains errorStr ''i/o error'' \<or>
         Contains errorStr ''lmfind error'' \<or> Contains errorStr ''directory'' \<or>
         Contains errorStr ''timeout'' \<or> Contains errorStr ''connection'')"

text \<open>
  The loop of \<open>uploadWithRetry\<close>, from the test \<open>attempt <= maxRetries\<close> on, with the
  variable \<open>lastError\<close>; after the loop the last error is wrapped.
\<close>

function uploadWithRetry_loop ::
  "Session \<Rightarrow> UploadRequest \<Rightarrow> nat \<Rightarrow> error option \<Rightarrow> world \<Rightarrow> error option \<times> world" where
  "uploadWithRetry_loop session request attempt lastError w =
     (if attempt \<le> maxRetries then
        (case UploadContent session request w of
           (None, w1) \<Rightarrow> (None, w1)
         | (Some err, w1) \<Rightarrow>
             if \<not> isRetryable err then (Some err, w1)
             else uploadWithRetry_loop session request (attempt + 1) (Some err)
                    (if attempt < maxRetries then Sleep (int attempt * retryDelay) w1 else w1))
      else
        (Some (case lastError of
                 Some e \<Rightarrow> Errorf_w (''upload failed after '' @ Itoa (int maxRetries) @ '' attempts: '') e
               | None \<Rightarrow> Errorf (''upload failed after '' @ Itoa (int maxRetries) @ '' attempts: %!w(<nil>)'')),
         w))"
  by pat_completeness auto
termination
  by (relation "measure (\<lambda>(session, request, attempt, lastError, w). Suc maxRetries - attempt)") auto

declare uploadWithRetry_loop.simps [simp del]

definition uploadWithRetry :: "Session \<Rightarrow> UploadRequest \<Rightarrow> bool \<Rightarrow> world \<Rightarrow> error option \<times> world" where
  "uploadWithRetry session request memberExists w = uploadWithRetry_loop session request 1 None w"

text \<open>
  \<open>CopySequentialDataset\<close>, \<open>CopyMember\<close> and \<open>RenameDataset\<close> differ in the URL and in the
  request body; the statements that send the request and test the status are the same in
  the three.
\<close>

definition copyRequest :: "Session \<Rightarrow> string \<Rightarrow> json \<Rightarrow> world \<Rightarrow> error option \<times> world" where
  "copyRequest session apiURL requestBody w =
     (case roundTrip session ''PUT'' apiURL (JSONBody requestBody) (Some ''application/json'') w of
        (Inl err, w') \<Rightarrow> (Some err, w')
      | (Inr resp, w') \<Rightarrow>
          if StatusCode resp \<noteq> 201 \<and> StatusCode resp \<noteq> 200
          then (Some (statusError resp), w') else (None, w'))"

definition CopySequentialDataset :: "Session \<Rightarrow> string \<Rightarrow> string \<Rightarrow> world \<Rightarrow> error option \<times> world" where
  "CopySequentialDataset session sourceName targetName w =
     (let apiURL = BaseURL session @ ''/restfiles/ds/'' @ PathEscape targetName;
          requestBody = JObject [(''request'', JString ''copy''),
                                 (''from-dataset'', JObject [(''dsn'', JString sourceName)])]
      in copyRequest session apiURL requestBody w)"

definition CopyMember ::
  "Session \<Rightarrow> string \<Rightarrow> string \<Rightarrow> string \<Rightarrow> string \<Rightarrow> world \<Rightarrow> error option \<times> world" where
  "CopyMember session sourceName sourceMember targetName targetMember w =
     (let apiURL = BaseURL session @ ''/restfiles/ds/'' @ PathEscape targetName @ ''('' @
                     PathEscape targetMember @ '')'';
          requestBody = JObject [(''request'', JString ''copy''),
                                 (''from-dataset'', JObject [(''dsn'', JString sourceName),
                                                             (''member'', JString sourceMember)])]
      in copyRequest session apiURL requestBody w)"

definition RenameDataset :: "Session \<Rightarrow> string \<Rightarrow> string \<Rightarrow> world \<Rightarrow> error option \<times> world" where
  "RenameDataset session oldName newName w =
     (let apiURL = BaseURL session @ ''/restfiles/ds/'' @ PathEscape newName;
          requestBody = JObject [(''request'', JString ''rename''),
                                 (''from-dataset'', JObject [(''dsn'', JString oldName)])]
      in copyRequest session apiURL requestBody w)"

section \<open>Package jobs: requests\<close>

text \<open>\<open>strings.Split\<close> with a separator of one byte.\<close>

fun Split :: "string \<Rightarrow> char \<Rightarrow> string list" where
  "Split [] sep = [[]]"
| "Split (c # cs) sep =
     (if c = sep then [] # Split cs sep
      else (case Split cs sep of [] \<Rightarrow> [[c]] | p # ps \<Rightarrow> (c # p) # ps))"

definition parseCorrelator :: "string \<Rightarrow> error + string \<times> string" where
  "parseCorrelator correlator =
     (let parts = Split correlator CHR '':'' in
      if length parts \<noteq> 2 then
        Inl (Errorf (''correlator must be in format 'jobname:jobid', got: '' @ correlator))
      else Inr (parts ! 0, parts ! 1))"

text \<open>
  \<open>url.Values.Encode\<close>: the parameters sorted by key, each as \<open>key=value\<close> with both parts
  escaped, joined by \<open>&\<close>.  The client sets each key at most once.
\<close>

fun join_amp :: "string list \<Rightarrow> string" where
  "join_amp [] = []"
| "join_amp [p] = p"
| "join_amp (p # q # ps) = p @ ''&'' @ join_amp (q # ps)"

definition Values_Encode :: "(string \<times> string) list \<Rightarrow> string" where
  "Values_Encode params =
     join_amp (map (\<lambda>(k, v). QueryEscape k @ ''='' @ QueryEscape v) (sort_key fst params))"

definition ListJobs_params :: "JobFilter option \<Rightarrow> (string \<times> string) list" where
  "ListJobs_params filter' =
     (case filter' of
        None \<Rightarrow> []
      | Some f \<Rightarrow>
          (if JobFilter.Owner f \<noteq> [] then [(''owner'', JobFilter.Owner f)] else []) @
          (if Prefix f \<noteq> [] then [(''prefix'', Prefix f)] else []) @
          (if MaxJobs f > 0 then [(''max-jobs'', Itoa (MaxJobs f))] else []) @
          (if JobFilter.JobID f \<noteq> [] then [(''jobid'', JobFilter.JobID f)] else []) @
          (if JobFilter.JobName f \<noteq> [] then [(''jobname'', JobFilter.JobName f)] else []) @
          (if JobFilter.Status f \<noteq> [] then [(''status'', JobFilter.Status f)] else []) @
          (if UserCorrelator f \<noteq> [] then [(''user-correlator'', UserCorrelator f)] else []))"

text \<open>
  The end of \<open>ListJobs\<close>, from the body of a response with status 200: first the object
  with a \<open>jobs\<close> field, then the bare array.
\<close>

definition ListJobs_parse :: "string \<Rightarrow> error + JobList" where
  "ListJobs_parse bodyBytes =
     (case Unmarshal decodeJobList \<lparr>Jobs = []\<rparr> bodyBytes of
        Inr jobList \<Rightarrow>
          if length (Jobs jobList) > 0 \<or> bodyBytes = ''{}'' then Inr jobList
          else (case Unmarshal (decodeSlice decodeJob zeroJob) [] bodyBytes of
                  Inr jobsArr \<Rightarrow> Inr \<lparr>Jobs = jobsArr\<rparr>
                | Inl err \<Rightarrow> Inl (Errorf (''failed to decode response: '' @ bodyBytes)))
      | Inl err1 \<Rightarrow>
          (case Unmarshal (decodeSlice decodeJob zeroJob) [] bodyBytes of
             Inr jobsArr \<Rightarrow> Inr \<lparr>Jobs = jobsArr\<rparr>
           | Inl err \<Rightarrow> Inl (Errorf (''failed to decode response: '' @ bodyBytes))))"

definition ListJobs :: "Session \<Rightarrow> JobFilter option \<Rightarrow> world \<Rightarrow> (error + JobList) \<times> world" where
  "ListJobs session filter' w =
     (let params = ListJobs_params filter';
          apiURL = BaseURL session @ ''/restjobs/jobs'';
          apiURL = (if length params > 0 then apiURL @ ''?'' @ Values_Encode params else apiURL)
      in case roundTrip session ''GET'' apiURL NoBody None w of
           (Inl err, w') \<Rightarrow> (Inl err, w')
         | (Inr resp, w') \<Rightarrow>
             if StatusCode resp \<noteq> 200 then (Inl (statusError resp), w')
             else (case BodyErr resp of
                     Some err \<Rightarrow> (Inl (Errorf_w ''failed to read response: '' err), w')
                   | None \<Rightarrow> (ListJobs_parse (Response.Body resp), w')))"

definition GetJobByNameID :: "Session \<Rightarrow> string \<Rightarrow> string \<Rightarrow> world \<Rightarrow> (error + Job) \<times> world" where
  "GetJobByNameID session jobName jobID w =
     (let apiURL = BaseURL session @ ''/restjobs/jobs/'' @ PathEscape jobName @ ''/'' @ PathEscape jobID
      in case roundTrip session ''GET'' apiURL NoBody None w of
           (Inl err, w') \<Rightarrow> (Inl err, w')
         | (Inr resp, w') \<Rightarrow>
             if StatusCode resp \<noteq> 200 then (Inl (statusError resp), w')
             else (case Decode decodeJob zeroJob (Response.Body resp) (BodyErr resp) of
                     Inl err \<Rightarrow> (Inl (Errorf_w ''failed to decode response: '' err), w')
                   | Inr job \<Rightarrow> (Inr job, w')))"

definition GetJob :: "Session \<Rightarrow> string \<Rightarrow> world \<Rightarrow> (error + Job) \<times> world" where
  "GetJob session correlator w =
     (if Contains correlator '':'' then
        (case parseCorrelator correlator of
           Inl err \<Rightarrow> (Inl (Errorf_w ''invalid correlator format: '' err), w)
         | Inr (jobName, jobID) \<Rightarrow> GetJobByNameID session jobName jobID w)
      else
        (let jobFilter = \<lparr>Owner = [], Prefix = [], MaxJobs = 100, JobID = correlator, JobName = [],
                           Status = [], UserCorrelator = []\<rparr>
         in case ListJobs session (Some jobFilter) w of
              (Inl err, w') \<Rightarrow>
                (Inl (Errorf_w (''failed to find job with ID '' @ correlator @ '': '') err), w')
            | (Inr jobList, w') \<Rightarrow>
                (case find (\<lambda>job. Job.JobID job = correlator) (Jobs jobList) of
                   Some job \<Rightarrow> GetJobByNameID session (Job.JobName job) (Job.JobID job) w'
                 | None \<Rightarrow> (Inl (Errorf (''job with ID '' @ correlator @ '' not found'')), w'))))"

definition GetJobStatus :: "Session \<Rightarrow> string \<Rightarrow> world \<Rightarrow> (error + string) \<times> world" where
  "GetJobStatus session correlator w =
     (case GetJob session correlator w of
        (Inl err, w') \<Rightarrow> (Inl err, w')
      | (Inr job, w') \<Rightarrow> (Inr (Job.Status job), w'))"

text \<open>
  The loop of \<open>WaitForJobCompletion\<close>.  It has no bound of its own, so the first argument
  counts the iterations that are left to run; \<open>None\<close> means that the loop has not
  returned within them.
\<close>

fun WaitForJobCompletion_loop ::
  "nat \<Rightarrow> Session \<Rightarrow> string \<Rightarrow> int \<Rightarrow> int \<Rightarrow> int \<Rightarrow> world \<Rightarrow> ((error + string) \<times> world) option" where
  "WaitForJobCompletion_loop 0 session correlator timeout pollInterval startTime w = None"
| "WaitForJobCompletion_loop (Suc n) session correlator timeout pollInterval startTime w =
     (if Since startTime w > timeout then
        Some (Inl (Errorf (''timeout waiting for job '' @ correlator @ '' to complete'')), w)
      else
        (case GetJobStatus session correlator w of
           (Inl err, w1) \<Rightarrow> Some (Inl (Errorf_w ''failed to get job status: '' err), w1)
         | (Inr status, w1) \<Rightarrow>
             if isJobComplete status then Some (Inr status, w1)
             else WaitForJobCompletion_loop n session correlator timeout pollInterval startTime
                    (Sleep pollInterval w1)))"

definition WaitForJobCompletion ::
  "nat \<Rightarrow> Session \<Rightarrow> string \<Rightarrow> int \<Rightarrow> int \<Rightarrow> world \<Rightarrow> ((error + string) \<times> world) option" where
  "WaitForJobCompletion fuel session correlator timeout pollInterval w =
     (case Now w of
        (startTime, w0) \<Rightarrow>
          WaitForJobCompletion_loop fuel session correlator timeout pollInterval startTime w0)"

definition GetSpoolFiles ::
  "Session \<Rightarrow> string \<Rightarrow> string \<Rightarrow> world \<Rightarrow> (error + SpoolFile list) \<times> world" where
  "GetSpoolFiles session jobName jobID w =
     (let apiURL = BaseURL session @ ''/restjobs/jobs/'' @ PathEscape jobName @ ''/'' @ PathEscape jobID
                     @ ''/files''
      in case roundTrip session ''GET'' apiURL NoBody None w of
           (Inl err, w') \<Rightarrow> (Inl err, w')
         | (Inr resp, w') \<Rightarrow>
             if StatusCode resp \<noteq> 200 then (Inl (statusError resp), w')
             else (case Decode (decodeSlice decodeSpoolFile zeroSpoolFile) [] (Response.Body resp)
                          (BodyErr resp) of
                     Inl err \<Rightarrow> (Inl (Errorf_w ''failed to decode response: '' err), w')
                   | Inr spoolFiles \<Rightarrow> (Inr spoolFiles, w')))"

definition GetSpoolFileContent ::
  "Session \<Rightarrow> string \<Rightarrow> string \<Rightarrow> int \<Rightarrow> world \<Rightarrow> (error + string) \<times> world" where
  "GetSpoolFileContent session jobName jobID spoolID w =
     (let apiURL = BaseURL session @ ''/restjobs/jobs/'' @ PathEscape jobName @ ''/'' @ PathEscape jobID
                     @ ''/files/'' @ Itoa spoolID @ ''/records''
      in case roundTrip session ''GET'' apiURL NoBody None w of
           (Inl err, w') \<Rightarrow> (Inl err, w')
         | (Inr resp, w') \<Rightarrow>
             if StatusCode resp \<noteq> 200 then (Inl (statusError resp), w')
             else (case BodyErr resp of
                     Some err \<Rightarrow> (Inl (Errorf_w ''failed to read response body: '' err), w')
                   | None \<Rightarrow> (Inr (Response.Body resp), w')))"

text \<open>The loop of \<open>GetJobOutput\<close> over the spool files, with the map \<open>output\<close>.\<close>

fun GetJobOutput_loop ::
  "Session \<Rightarrow> string \<Rightarrow> string \<Rightarrow> SpoolFile list \<Rightarrow> (string \<rightharpoonup> string) \<Rightarrow> world \<Rightarrow>
     (string \<rightharpoonup> string) \<times> world" where
  "GetJobOutput_loop session jobName jobID [] output w = (output, w)"
| "GetJobOutput_loop session jobName jobID (spoolFile # rest) output w =
     (case GetSpoolFileContent session jobName jobID (ID spoolFile) w of
        (Inl err, w1) \<Rightarrow> GetJobOutput_loop session jobName jobID rest output w1
      | (Inr content, w1) \<Rightarrow>
          GetJobOutput_loop session jobName jobID rest (output(DDName spoolFile \<mapsto> content)) w1)"

text \<open>The first part of \<open>GetJobOutput\<close>: the job name and the job id of the job that is meant.\<close>

definition GetJobOutput_resolve ::
  "Session \<Rightarrow> string \<Rightarrow> world \<Rightarrow> (error + string \<times> string) \<times> world" where
  "GetJobOutput_resolve session correlator w =
     (if Contains correlator '':'' then
        (case parseCorrelator correlator of
           Inl err \<Rightarrow> (Inl (Errorf_w ''invalid correlator format: '' err), w)
         | Inr (jobName, jobID) \<Rightarrow> (Inr (jobName, jobID), w))
      else
        (let jobFilter = \<lparr>Owner = [], Prefix = [], MaxJobs = 100, JobID = correlator, JobName = [],
                           Status = [], UserCorrelator = []\<rparr>
         in case ListJobs session (Some jobFilter) w of
              (Inl err, w') \<Rightarrow>
                (Inl (Errorf_w (''failed to find job with ID '' @ correlator @ '': '') err), w')
            | (Inr jobList, w') \<Rightarrow>
                (case find (\<lambda>job. Job.JobID job = correlator) (Jobs jobList) of
                   Some job \<Rightarrow> (Inr (Job.JobName job, Job.JobID job), w')
                 | None \<Rightarrow> (Inl (Errorf (''job with ID '' @ correlator @ '' not found'')), w'))))"

definition GetJobOutput ::
  "Session \<Rightarrow> string \<Rightarrow> world \<Rightarrow> (error + (string \<rightharpoonup> string)) \<times> world" where
  "GetJobOutput session correlator w =
     (case GetJobOutput_resolve session correlator w of
        (Inl err, w0) \<Rightarrow> (Inl err, w0)
      | (Inr (jobName, jobID), w0) \<Rightarrow>
          (case GetSpoolFiles session jobName jobID w0 of
             (Inl err, w1) \<Rightarrow> (Inl (Errorf_w ''failed to get spool files: '' err), w1)
           | (Inr spoolFiles, w1) \<Rightarrow>
               (case GetJobOutput_loop session jobName jobID spoolFiles Map.empty w1 of
                  (output, w2) \<Rightarrow> (Inr output, w2))))"

text \<open>
  For the statement of what \<open>GetJobOutput\<close> collects: the outcomes of the content fetches
  for a list of spool files, in order, and the map that the successful ones give.
\<close>

fun fetch_outcomes ::
  "Session \<Rightarrow> string \<Rightarrow> string \<Rightarrow> SpoolFile list \<Rightarrow> world \<Rightarrow> (SpoolFile \<times> (error + string)) list \<times> world" where
  "fetch_outcomes session jobName jobID [] w = ([], w)"
| "fetch_outcomes session jobName jobID (spoolFile # rest) w =
     (case GetSpoolFileContent session jobName jobID (ID spoolFile) w of
        (r, w1) \<Rightarrow> (case fetch_outcomes session jobName jobID rest w1 of
                      (rs, w2) \<Rightarrow> ((spoolFile, r) # rs, w2)))"

definition collect ::
  "(string \<rightharpoonup> string) \<Rightarrow> (SpoolFile \<times> (error + string)) list \<Rightarrow> (string \<rightharpoonup> string)" where
  "collect output outcomes =
     foldl (\<lambda>m (spoolFile, r). case r of Inl err \<Rightarrow> m | Inr content \<Rightarrow> m(DDName spoolFile \<mapsto> content))
       output outcomes"

text \<open>
  \<open>SubmitJob\<close> chooses the body and the content type from the first source that is set,
  in the order statement, dataset, local file.
\<close>

definition SubmitJob_body :: "SubmitJobRequest \<Rightarrow> error + body \<times> string" where
  "SubmitJob_body request =
     (if JobStatement request \<noteq> [] then Inr (TextBody (JobStatement request), ''text/plain'')
      else if JobDataSet request \<noteq> [] then
        (let datasetPath = JobDataSet request;
             datasetPath = (if \<not> HasPrefix datasetPath ''//'' then ''//'' @ datasetPath else datasetPath)
         in Inr (JSONBody (JObject ([(''file'', JString datasetPath)] @
                   (if Volume request \<noteq> [] then [(''volume'', JString (Volume request))] else []))),
                 ''application/json''))
      else if JobLocalFile request \<noteq> [] then
        Inr (JSONBody (JObject ([(''file'', JString (JobLocalFile request))] @
               (if Directory request \<noteq> [] then [(''directory'', JString (Directory request))] else []) @
               (if Extension request \<noteq> [] then [(''extension'', JString (Extension request))] else []))),
             ''application/json'')
      else Inl (Errorf ''no job source specified (jobStatement, jobDataSet, or jobLocalFile)''))"

definition SubmitJob :: "Session \<Rightarrow> SubmitJobRequest \<Rightarrow> world \<Rightarrow> (error + SubmitJobResponse) \<times> world" where
  "SubmitJob session request w =
     (let apiURL = BaseURL session @ ''/restjobs/jobs'' in
      case SubmitJob_body request of
        Inl err \<Rightarrow> (Inl err, w)
      | Inr (requestBody, contentType) \<Rightarrow>
          (case roundTrip session ''PUT'' apiURL requestBody (Some contentType) w of
             (Inl err, w') \<Rightarrow> (Inl err, w')
           | (Inr resp, w') \<Rightarrow>
               if StatusCode resp \<noteq> 201 \<and> StatusCode resp \<noteq> 200 \<and> StatusCode resp \<noteq> 202
               then (Inl (statusError resp), w')
               else (case Decode decodeSubmitJobResponse zeroSubmitJobResponse (Response.Body resp)
                            (BodyErr resp) of
                       Inl err \<Rightarrow> (Inl (Errorf_w ''failed to decode response: '' err), w')
                     | Inr submitResponse \<Rightarrow> (Inr submitResponse, w'))))"

definition SubmitJobStatement :: "Session \<Rightarrow> string \<Rightarrow> world \<Rightarrow> (error + SubmitJobResponse) \<times> world" where
  "SubmitJobStatement session jclStatement w =
     SubmitJob session \<lparr>JobDataSet = [], JobLocalFile = [], JobStatement = jclStatement,
       Directory = [], Extension = [], Volume = []\<rparr> w"

definition SubmitJobFromDataset ::
  "Session \<Rightarrow> string \<Rightarrow> string \<Rightarrow> world \<Rightarrow> (error + SubmitJobResponse) \<times> world" where
  "SubmitJobFromDataset session dataset volume w =
     (let dataset = TrimPrefix dataset ''//'';
          userID = Session.User session;
          dataset = (if HasPrefix dataset (userID @ ''.'') then TrimPrefix dataset (userID @ ''.'')
                     else dataset)
      in SubmitJob session \<lparr>JobDataSet = dataset, JobLocalFile = [], JobStatement = [],
           Directory = [], Extension = [], Volume = volume\<rparr> w)"

definition SubmitJobFromLocalFile ::
  "Session \<Rightarrow> string \<Rightarrow> string \<Rightarrow> string \<Rightarrow> world \<Rightarrow> (error + SubmitJobResponse) \<times> world" where
  "SubmitJobFromLocalFile session localFile directory extension w =
     SubmitJob session \<lparr>JobDataSet = [], JobLocalFile = localFile, JobStatement = [],
       Directory = directory, Extension = extension, Volume = []\<rparr> w"

section \<open>What a polling loop meets\<close>

text \<open>
  Two worlds have the same surroundings when their server, URL parser and timing agree;
  the client changes only the record of what it did and the clock.  For a session and a
  correlator, \<open>never_complete\<close> says that no status fetch in such a world returns a status
  that passes the completion test, and \<open>always_answers\<close> that every status fetch returns a
  status.
\<close>

definition same_server :: "world \<Rightarrow> world \<Rightarrow> bool" where
  "same_server w w' = (server w' = server w \<and> url_Parse w' = url_Parse w \<and>
                       latency w' = latency w \<and> oversleep w' = oversleep w)"

definition never_complete :: "Session \<Rightarrow> string \<Rightarrow> world \<Rightarrow> bool" where
  "never_complete session correlator w =
     (\<forall>w' status w''. same_server w w' \<and> GetJobStatus session correlator w' = (Inr status, w'')
        \<longrightarrow> \<not> isJobComplete status)"

definition always_answers :: "Session \<Rightarrow> string \<Rightarrow> world \<Rightarrow> bool" where
  "always_answers session correlator w =
     (\<forall>w'. same_server w w' \<longrightarrow> (\<exists>status w''. GetJobStatus session correlator w' = (Inr status, w'')))"

section \<open>Example inputs\<close>

definition example_session :: Session where
  "example_session =
     \<lparr>Profile = \<lparr>Name = ''zosmf'', Host = ''mainframe.example.com'', Port = 443, User = ''user'',
          Password = ''pass'', RejectUnauthorized = True, BasePath = [], Protocol = ''https'',
          Encoding = [], ResponseTimeout = 0, CertFile = [], CertKeyFile = []\<rparr>,
      Host = ''mainframe.example.com'', Port = 443, User = ''user'', Password = ''pass'',
      BaseURL = ''https://mainframe.example.com/zosmf'',
      HTTPClient = \<lparr>InsecureSkipVerify = False, Timeout = 30000000000\<rparr>,
      Headers = [''Content-Type'' \<mapsto> ''application/json'', ''Accept'' \<mapsto> ''application/json'',
                 ''Authorization'' \<mapsto> ''Basic dXNlcjpwYXNz'']\<rparr>"

text \<open>A world whose server answers every request with the same response.\<close>

definition constant_world :: "Response \<Rightarrow> world" where
  "constant_world resp =
     \<lparr>url_Parse = (\<lambda>u. None), server = (\<lambda>n req. Inr resp), latency = (\<lambda>n. 1000000),
      oversleep = (\<lambda>n. 0), lapse = 100, requests = [], sleeps = [], clock = 0\<rparr>"

text \<open>
  A world whose server answers the first two requests with a directory fault and the
  third with success.
\<close>

definition flaky_world :: world where
  "flaky_world =
     \<lparr>url_Parse = (\<lambda>u. None),
      server = (\<lambda>n req. if n < 2 then Inr \<lparr>StatusCode = 500, Body = ''ISRZ002 I/O error'', BodyErr = None\<rparr>
                         else Inr \<lparr>StatusCode = 204, Body = [], BodyErr = None\<rparr>),
      latency = (\<lambda>n. 1000000), oversleep = (\<lambda>n. 0), lapse = 100, requests = [], sleeps = [], clock = 0\<rparr>"

definition example_upload :: UploadRequest where
  "example_upload = \<lparr>DatasetName = ''USER.PDS'', MemberName = ''MEMBER1'', Content = ''Hello, World!'',
     Encoding = [], Replace = True\<rparr>"

text \<open>A world where the job keeps running, and one where the job is not found.\<close>

definition running_world :: world where
  \<open>running_world = constant_world
     \<lparr>StatusCode = 200, Body = ''{"jobid":"JOB001","jobname":"TESTJOB","status":"RUNNING"}'',
      BodyErr = None\<rparr>\<close>

definition notfound_world :: world where
  \<open>notfound_world = constant_world
     \<lparr>StatusCode = 404, Body = ''{"error": "Job not found"}'', BodyErr = None\<rparr>\<close>

text \<open>
  A world where the first request is answered with two spool files of the same DD name;
  the content fetch for the first of them succeeds and the one for the second fails.
\<close>

definition sysout_world :: world where
  \<open>sysout_world =
     \<lparr>url_Parse = (\<lambda>u. None),
      server = (\<lambda>n req.
         if n = 0 then Inr \<lparr>StatusCode = 200,
              Body = ''[{"id":1,"ddname":"SYSOUT"},{"id":2,"ddname":"SYSOUT"}]'', BodyErr = None\<rparr>
         else if n = 1 then Inr \<lparr>StatusCode = 200, Body = ''first'', BodyErr = None\<rparr>
         else Inr \<lparr>StatusCode = 500, Body = ''spool file unavailable'', BodyErr = None\<rparr>),
      latency = (\<lambda>n. 1000000), oversleep = (\<lambda>n. 0), lapse = 100, requests = [], sleeps = [],
      clock = 0\<rparr>\<close>

text \<open>
  A world where the first request is answered with three spool files and the content
  fetch for the second of them fails.
\<close>

definition spool_world :: world where
  \<open>spool_world =
     \<lparr>url_Parse = (\<lambda>u. None),
      server = (\<lambda>n req.
         if n = 0 then Inr \<lparr>StatusCode = 200,
              Body = ''[{"id":1,"ddname":"JESMSGLG"},{"id":2,"ddname":"JESJCL"},{"id":3,"ddname":"SYSPRINT"}]'',
              BodyErr = None\<rparr>
         else if n = 2 then Inr \<lparr>StatusCode = 500, Body = ''spool file unavailable'', BodyErr = None\<rparr>
         else Inr \<lparr>StatusCode = 200, Body = ''IEF142I STEP WAS EXECUTED'', BodyErr = None\<rparr>),
      latency = (\<lambda>n. 1000000), oversleep = (\<lambda>n. 0), lapse = 100, requests = [], sleeps = [], clock = 0\<rparr>\<close>

section \<open>Properties\<close>

lemma Contains_iff: "Contains s sub \<longleftrightarrow> (\<exists>u v. s = u @ sub @ v)"
proof (induction s)
  case Nil
  then show ?case by auto
next
  case (Cons c cs)
  have "HasPrefix (c # cs) sub \<longleftrightarrow> (\<exists>v. c # cs = sub @ v)"
    unfolding HasPrefix_def by (metis append_eq_conv_conj)
  moreover have "(\<exists>u v. c # cs = u @ sub @ v) \<longleftrightarrow>
      (\<exists>v. c # cs = sub @ v) \<or> (\<exists>u v. cs = u @ sub @ v)"
  proof
    assume "\<exists>u v. c # cs = u @ sub @ v"
    then obtain u v where uv: "c # cs = u @ sub @ v" by blast
    show "(\<exists>v. c # cs = sub @ v) \<or> (\<exists>u v. cs = u @ sub @ v)"
    proof (cases u)
      case Nil
      with uv show ?thesis by auto
    next
      case (Cons a u')
      with uv have "cs = u' @ sub @ v" by simp
      then show ?thesis by blast
    qed
  next
    assume "(\<exists>v. c # cs = sub @ v) \<or> (\<exists>u v. cs = u @ sub @ v)"
    then show "\<exists>u v. c # cs = u @ sub @ v"
    proof
      assume "\<exists>v. c # cs = sub @ v"
      then obtain v where "c # cs = [] @ sub @ v" by auto
      then show ?thesis by blast
    next
      assume "\<exists>u v. cs = u @ sub @ v"
      then obtain u v where "c # cs = (c # u) @ sub @ v" by auto
      then show ?thesis by blast
    qed
  qed
  ultimately show ?case using Cons.IH by simp
qed

lemma isJobComplete_loop_iff:
  "isJobComplete_loop status cs \<longleftrightarrow> (\<exists>c \<in> set cs. Contains status c)"
  by (induction cs) auto

subsection \<open>Completion test\<close>

text \<open>
  C6.  For every status string, \<open>isJobComplete\<close> is true exactly when the upper-cased
  status contains one of OUTPUT, CC 0000, CC 0001, CC 0002, CC 0003, CC 0004, ABEND.  It is
  true for each of these seven texts, in upper and in lower case, and false for ACTIVE,
  INPUT and RUNNING.
\<close>

theorem isJobComplete_spec:
  "(isJobComplete status \<longleftrightarrow>
      Contains (ToUpper status) ''OUTPUT'' \<or> Contains (ToUpper status) ''CC 0000'' \<or>
      Contains (ToUpper status) ''CC 0001'' \<or> Contains (ToUpper status) ''CC 0002'' \<or>
      Contains (ToUpper status) ''CC 0003'' \<or> Contains (ToUpper status) ''CC 0004'' \<or>
      Contains (ToUpper status) ''ABEND'') \<and>
   isJobComplete ''OUTPUT'' \<and> isJobComplete ''CC 0000'' \<and> isJobComplete ''CC 0001'' \<and>
   isJobComplete ''CC 0002'' \<and> isJobComplete ''CC 0003'' \<and> isJobComplete ''CC 0004'' \<and>
   isJobComplete ''ABEND'' \<and>
   isJobComplete ''output'' \<and> isJobComplete ''cc 0000'' \<and> isJobComplete ''cc 0001'' \<and>
   isJobComplete ''cc 0002'' \<and> isJobComplete ''cc 0003'' \<and> isJobComplete ''cc 0004'' \<and>
   isJobComplete ''Abend'' \<and>
   \<not> isJobComplete ''ACTIVE'' \<and> \<not> isJobComplete ''INPUT'' \<and> \<not> isJobComplete ''RUNNING''"
proof -
  have general: "isJobComplete status \<longleftrightarrow>
      Contains (ToUpper status) ''OUTPUT'' \<or> Contains (ToUpper status) ''CC 0000'' \<or>
      Contains (ToUpper status) ''CC 0001'' \<or> Contains (ToUpper status) ''CC 0002'' \<or>
      Contains (ToUpper status) ''CC 0003'' \<or> Contains (ToUpper status) ''CC 0004'' \<or>
      Contains (ToUpper status) ''ABEND''"
    unfolding isJobComplete_def completedStatuses_def isJobComplete_loop_iff by simp
  have upper: "isJobComplete ''OUTPUT''" "isJobComplete ''CC 0000''" "isJobComplete ''CC 0001''"
    "isJobComplete ''CC 0002''" "isJobComplete ''CC 0003''" "isJobComplete ''CC 0004''"
    "isJobComplete ''ABEND''"
    by code_simp+
  have lower: "isJobComplete ''output''" "isJobComplete ''cc 0000''" "isJobComplete ''cc 0001''"
    "isJobComplete ''cc 0002''" "isJobComplete ''cc 0003''" "isJobComplete ''cc 0004''"
    "isJobComplete ''Abend''"
    by code_simp+
  have running: "\<not> isJobComplete ''ACTIVE''" "\<not> isJobComplete ''INPUT''"
    "\<not> isJobComplete ''RUNNING''"
    by code_simp+
  from general upper lower running show ?thesis by blast
qed

theorem isJobComplete_spec_witness:
  "isJobComplete ''Job ended, cc 0004'' \<and> Contains (ToUpper ''Job ended, cc 0004'') ''CC 0004''"
proof -
  have "Contains (ToUpper ''Job ended, cc 0004'') ''CC 0004''" by code_simp
  with isJobComplete_spec [of "''Job ended, cc 0004''"] show ?thesis by blast
qed

subsection \<open>Dataset names\<close>

lemma validPattern_first_rest: "validPattern_first c \<Longrightarrow> validPattern_rest c"
  by (auto simp: validPattern_first_def validPattern_rest_def)

lemma validPattern_rest_valid: "validPattern_rest c \<Longrightarrow> isValidDatasetChar c"
  by (auto simp: validPattern_rest_def isValidDatasetChar_def)

lemma validPattern_first_not_digit:
  "validPattern_first c \<Longrightarrow> \<not> (CHR ''0'' \<le> c \<and> c \<le> CHR ''9'')"
  by (auto simp: validPattern_first_def less_eq_char_def)

lemma validPattern_rest_not_lower:
  "validPattern_rest c \<Longrightarrow> \<not> (CHR ''a'' \<le> c \<and> c \<le> CHR ''z'')"
  by (auto simp: validPattern_rest_def less_eq_char_def)

lemma validPattern_all_rest:
  "validPattern_MatchString name \<Longrightarrow> list_all validPattern_rest name"
  by (cases name) (auto simp: validPattern_first_rest)

lemma ValidateDatasetName_None_iff:
  "ValidateDatasetName name = None \<longleftrightarrow>
     name \<noteq> [] \<and> length name \<le> 44 \<and> validPattern_MatchString name \<and>
     \<not> Contains name ''..'' \<and> \<not> HasPrefix name ''.'' \<and> \<not> HasSuffix name ''.'' \<and>
     \<not> Contains name ''--''"
  unfolding ValidateDatasetName_def by auto

text \<open>
  C7.  \<open>ValidateDatasetName\<close> accepts TEST.DATA.  It returns an error for the empty name,
  for every name of more than 44 characters, for every name with a lowercase letter, for
  every name that starts with a digit, for every name that starts or ends with a period,
  and for every name that contains two periods or two hyphens in a row.
\<close>

theorem ValidateDatasetName_spec:
  "ValidateDatasetName ''TEST.DATA'' = None \<and>
   ValidateDatasetName [] \<noteq> None \<and>
   (length n1 > 44 \<longrightarrow> ValidateDatasetName n1 \<noteq> None) \<and>
   ((\<exists>c \<in> set n2. CHR ''a'' \<le> c \<and> c \<le> CHR ''z'') \<longrightarrow> ValidateDatasetName n2 \<noteq> None) \<and>
   (n3 \<noteq> [] \<and> CHR ''0'' \<le> hd n3 \<and> hd n3 \<le> CHR ''9'' \<longrightarrow> ValidateDatasetName n3 \<noteq> None) \<and>
   (HasPrefix n4 ''.'' \<longrightarrow> ValidateDatasetName n4 \<noteq> None) \<and>
   (HasSuffix n5 ''.'' \<longrightarrow> ValidateDatasetName n5 \<noteq> None) \<and>
   (Contains n6 ''..'' \<longrightarrow> ValidateDatasetName n6 \<noteq> None) \<and>
   (Contains n7 ''--'' \<longrightarrow> ValidateDatasetName n7 \<noteq> None)"
proof -
  have ok: "ValidateDatasetName ''TEST.DATA'' = None" by code_simp
  have empty: "ValidateDatasetName [] \<noteq> None" by (simp add: ValidateDatasetName_def)
  have long: "length n1 > 44 \<longrightarrow> ValidateDatasetName n1 \<noteq> None"
    by (simp add: ValidateDatasetName_None_iff)
  have lower: "(\<exists>c \<in> set n2. CHR ''a'' \<le> c \<and> c \<le> CHR ''z'') \<longrightarrow> ValidateDatasetName n2 \<noteq> None"
  proof (intro impI notI)
    assume low: "\<exists>c \<in> set n2. CHR ''a'' \<le> c \<and> c \<le> CHR ''z''" and "ValidateDatasetName n2 = None"
    then have "list_all validPattern_rest n2"
      by (simp add: ValidateDatasetName_None_iff validPattern_all_rest)
    with low show False
      using validPattern_rest_not_lower by (auto simp: list_all_iff)
  qed
  have digit: "n3 \<noteq> [] \<and> CHR ''0'' \<le> hd n3 \<and> hd n3 \<le> CHR ''9'' \<longrightarrow> ValidateDatasetName n3 \<noteq> None"
    using validPattern_first_not_digit
    by (cases n3) (auto simp: ValidateDatasetName_None_iff)
  have pre: "HasPrefix n4 ''.'' \<longrightarrow> ValidateDatasetName n4 \<noteq> None"
    by (simp add: ValidateDatasetName_None_iff)
  have suf: "HasSuffix n5 ''.'' \<longrightarrow> ValidateDatasetName n5 \<noteq> None"
    by (simp add: ValidateDatasetName_None_iff)
  have dots: "Contains n6 ''..'' \<longrightarrow> ValidateDatasetName n6 \<noteq> None"
    by (simp add: ValidateDatasetName_None_iff)
  have hyph: "Contains n7 ''--'' \<longrightarrow> ValidateDatasetName n7 \<noteq> None"
    by (simp add: ValidateDatasetName_None_iff)
  from ok empty long lower digit pre suf dots hyph show ?thesis by blast
qed

theorem ValidateDatasetName_spec_witness:
  "length ''ABCDEFGH.ABCDEFGH.ABCDEFGH.ABCDEFGH.ABCDEFGH.'' > 44 \<and>
   ValidateDatasetName ''ABCDEFGH.ABCDEFGH.ABCDEFGH.ABCDEFGH.ABCDEFGH.'' \<noteq> None \<and>
   (\<exists>c \<in> set ''TEST.data''. CHR ''a'' \<le> c \<and> c \<le> CHR ''z'') \<and>
   ValidateDatasetName ''TEST.data'' \<noteq> None \<and>
   CHR ''0'' \<le> hd ''1TEST.DATA'' \<and> hd ''1TEST.DATA'' \<le> CHR ''9'' \<and>
   ValidateDatasetName ''1TEST.DATA'' \<noteq> None \<and>
   HasPrefix ''.TEST'' ''.'' \<and> ValidateDatasetName ''.TEST'' \<noteq> None \<and>
   HasSuffix ''TEST.'' ''.'' \<and> ValidateDatasetName ''TEST.'' \<noteq> None \<and>
   Contains ''TEST..DATA'' ''..'' \<and> ValidateDatasetName ''TEST..DATA'' \<noteq> None \<and>
   Contains ''TEST--DATA'' ''--'' \<and> ValidateDatasetName ''TEST--DATA'' \<noteq> None"
proof -
  have h1: "length ''ABCDEFGH.ABCDEFGH.ABCDEFGH.ABCDEFGH.ABCDEFGH.'' > 44" by simp
  have h2: "\<exists>c \<in> set ''TEST.data''. CHR ''a'' \<le> c \<and> c \<le> CHR ''z''" by code_simp
  have h3: "''1TEST.DATA'' \<noteq> [] \<and> CHR ''0'' \<le> hd ''1TEST.DATA'' \<and> hd ''1TEST.DATA'' \<le> CHR ''9''"
    by code_simp
  have h4: "HasPrefix ''.TEST'' ''.''" by code_simp
  have h5: "HasSuffix ''TEST.'' ''.''" by code_simp
  have h6: "Contains ''TEST..DATA'' ''..''" by code_simp
  have h7: "Contains ''TEST--DATA'' ''--''" by code_simp
  from h1 h2 h3 h4 h5 h6 h7
    ValidateDatasetName_spec [of "''ABCDEFGH.ABCDEFGH.ABCDEFGH.ABCDEFGH.ABCDEFGH.''"
      "''TEST.data''" "''1TEST.DATA''" "''.TEST''" "''TEST.''" "''TEST..DATA''" "''TEST--DATA''"]
  show ?thesis by blast
qed

lemma ValidateDatasetName_accepts_isValid:
  assumes "ValidateDatasetName name = None"
  shows "isValidDatasetName name"
proof -
  from assms have ne: "name \<noteq> []" and len: "length name \<le> 44"
    and m: "validPattern_MatchString name"
    by (simp_all add: ValidateDatasetName_None_iff)
  from ne obtain c cs where name: "name = c # cs" by (cases name) auto
  with m have "validPattern_first c" by simp
  then have nd: "\<not> (CHR ''0'' \<le> hd name \<and> hd name \<le> CHR ''9'')"
    using validPattern_first_not_digit name by simp
  from m have "list_all validPattern_rest name" by (rule validPattern_all_rest)
  then have "list_all isValidDatasetChar name"
    using validPattern_rest_valid by (auto simp: list_all_iff)
  with ne len nd show ?thesis by (simp add: isValidDatasetName_def)
qed

text \<open>
  C10.  The dataset-name check of job-submission validation is strictly more permissive
  than \<open>ValidateDatasetName\<close>: every name that \<open>ValidateDatasetName\<close> accepts is accepted by
  \<open>isValidDatasetName\<close>, while the names A..B, A. and -A are accepted by
  \<open>isValidDatasetName\<close>, pass \<open>ValidateJobRequest\<close> as the \<open>JobDataSet\<close> of a request, and
  are rejected by \<open>ValidateDatasetName\<close>.
\<close>

theorem isValidDatasetName_more_permissive:
  "(ValidateDatasetName name = None \<longrightarrow> isValidDatasetName name) \<and>
   isValidDatasetName ''A..B'' \<and> ValidateDatasetName ''A..B'' \<noteq> None \<and>
   ValidateJobRequest (Some \<lparr>JobDataSet = ''A..B'', JobLocalFile = [], JobStatement = [],
      Directory = [], Extension = [], Volume = []\<rparr>) = None \<and>
   isValidDatasetName ''A.'' \<and> ValidateDatasetName ''A.'' \<noteq> None \<and>
   ValidateJobRequest (Some \<lparr>JobDataSet = ''A.'', JobLocalFile = [], JobStatement = [],
      Directory = [], Extension = [], Volume = []\<rparr>) = None \<and>
   isValidDatasetName ''-A'' \<and> ValidateDatasetName ''-A'' \<noteq> None \<and>
   ValidateJobRequest (Some \<lparr>JobDataSet = ''-A'', JobLocalFile = [], JobStatement = [],
      Directory = [], Extension = [], Volume = []\<rparr>) = None"
proof -
  have a: "isValidDatasetName ''A..B''" "isValidDatasetName ''A.''" "isValidDatasetName ''-A''"
    by code_simp+
  have b: "ValidateDatasetName ''A..B'' \<noteq> None" "ValidateDatasetName ''A.'' \<noteq> None"
    "ValidateDatasetName ''-A'' \<noteq> None"
    by code_simp+
  have c: "ValidateJobRequest (Some \<lparr>JobDataSet = ''A..B'', JobLocalFile = [], JobStatement = [],
      Directory = [], Extension = [], Volume = []\<rparr>) = None"
    "ValidateJobRequest (Some \<lparr>JobDataSet = ''A.'', JobLocalFile = [], JobStatement = [],
      Directory = [], Extension = [], Volume = []\<rparr>) = None"
    "ValidateJobRequest (Some \<lparr>JobDataSet = ''-A'', JobLocalFile = [], JobStatement = [],
      Directory = [], Extension = [], Volume = []\<rparr>) = None"
    using a by (simp_all add: ValidateJobRequest_def)
  from a b c ValidateDatasetName_accepts_isValid show ?thesis by blast
qed

theorem isValidDatasetName_more_permissive_witness:
  "ValidateDatasetName ''SYS1.PROCLIB'' = None \<and> isValidDatasetName ''SYS1.PROCLIB''"
proof -
  have h: "ValidateDatasetName ''SYS1.PROCLIB'' = None" by code_simp
  with isValidDatasetName_more_permissive [of "''SYS1.PROCLIB''"] show ?thesis by blast
qed

subsection \<open>Job sources\<close>

text \<open>
  The claim C3 as the specification words it: a request in which the number of sources
  that are set is not one fails validation.  The request below sets a JCL statement and a
  local file, and validation returns no error.
\<close>

theorem ValidateJobRequest_two_sources_counterexample:
  "JobStatement \<lparr>JobDataSet = [], JobLocalFile = ''job.jcl'', JobStatement = ''//A JOB'',
      Directory = [], Extension = [], Volume = []\<rparr> \<noteq> [] \<and>
   JobLocalFile \<lparr>JobDataSet = [], JobLocalFile = ''job.jcl'', JobStatement = ''//A JOB'',
      Directory = [], Extension = [], Volume = []\<rparr> \<noteq> [] \<and>
   ValidateJobRequest (Some \<lparr>JobDataSet = [], JobLocalFile = ''job.jcl'', JobStatement = ''//A JOB'',
      Directory = [], Extension = [], Volume = []\<rparr>) = None"
proof -
  have "Contains (ToUpper ''//A JOB'') ''JOB''" by code_simp
  then show ?thesis by (simp add: ValidateJobRequest_def)
qed

lemma SubmitJob_sends:
  assumes "SubmitJob_body r = Inr (b, ct)"
  shows "requests (snd (SubmitJob session r w)) =
     (if url_Parse w (BaseURL session @ ''/restjobs/jobs'') = None
      then requests w @ [\<lparr>Method = ''PUT'', URL = BaseURL session @ ''/restjobs/jobs'',
                           Header = (Headers session)(''Content-Type'' \<mapsto> ct), Body = b\<rparr>]
      else requests w)"
  using assms
  by (simp add: SubmitJob_def roundTrip_def NewRequest_def Do_def Let_def
        split: option.splits sum.splits prod.splits)

lemma SubmitJob_result:
  assumes "SubmitJob_body r = Inr (b, ct)"
  shows "fst (SubmitJob session r w) =
     (case url_Parse w (BaseURL session @ ''/restjobs/jobs'') of
        Some err \<Rightarrow> Inl (Errorf_w ''failed to create request: '' err)
      | None \<Rightarrow>
          (case server w (length (requests w))
                  \<lparr>Method = ''PUT'', URL = BaseURL session @ ''/restjobs/jobs'',
                    Header = (Headers session)(''Content-Type'' \<mapsto> ct), Body = b\<rparr> of
             Inl err \<Rightarrow> Inl (Errorf_w ''failed to make request: '' err)
           | Inr resp \<Rightarrow>
               if StatusCode resp \<noteq> 201 \<and> StatusCode resp \<noteq> 200 \<and> StatusCode resp \<noteq> 202
               then Inl (statusError resp)
               else (case Decode decodeSubmitJobResponse zeroSubmitJobResponse (Response.Body resp)
                            (BodyErr resp) of
                       Inl err \<Rightarrow> Inl (Errorf_w ''failed to decode response: '' err)
                     | Inr submitResponse \<Rightarrow> Inr submitResponse)))"
  using assms
  by (simp add: SubmitJob_def roundTrip_def NewRequest_def Do_def Let_def
        split: option.splits sum.splits prod.splits)

text \<open>
  C3, amended.  A job submission request must set at least one of the three sources.
  When none is set, \<open>ValidateJobRequest\<close> fails with the error that at least one job source
  must be specified, and \<open>SubmitJob\<close> fails with the error that no job source is specified,
  without sending a request.  When one or more are set, validation succeeds exactly when
  the statement, if set, contains JOB in upper case and the dataset name, if set, passes
  \<open>isValidDatasetName\<close>; that two or more are set is no error, and \<open>SubmitJob\<close> submits the
  statement if one is set, else the dataset, else the local file: it sends one request,
  unless the URL cannot be parsed, a PUT to the jobs URL whose content type and body are
  those of that source (the statement as plain text; the dataset, prefixed with \<open>//\<close> if
  it is not, and the volume if set, as a JSON object; the local file with the directory
  and the extension if set, as a JSON object), and its result is the decoded response for
  a status 200, 201 or 202 and the error of the failing step otherwise.
\<close>

theorem job_sources:
  "(ValidateJobRequest (Some r) =
      Some (Errorf ''at least one job source must be specified (jobStatement, jobDataSet, or jobLocalFile)'')
    \<longleftrightarrow> JobStatement r = [] \<and> JobDataSet r = [] \<and> JobLocalFile r = []) \<and>
   (ValidateJobRequest (Some r) = None \<longleftrightarrow>
      (JobStatement r \<noteq> [] \<or> JobDataSet r \<noteq> [] \<or> JobLocalFile r \<noteq> []) \<and>
      (JobStatement r = [] \<or> Contains (ToUpper (JobStatement r)) ''JOB'') \<and>
      (JobDataSet r = [] \<or> isValidDatasetName (JobDataSet r))) \<and>
   (JobStatement r = [] \<and> JobDataSet r = [] \<and> JobLocalFile r = [] \<longrightarrow>
      SubmitJob session r w =
        (Inl (Errorf ''no job source specified (jobStatement, jobDataSet, or jobLocalFile)''), w)) \<and>
   (JobStatement r \<noteq> [] \<longrightarrow> SubmitJob_body r = Inr (TextBody (JobStatement r), ''text/plain'')) \<and>
   (JobStatement r = [] \<and> JobDataSet r \<noteq> [] \<longrightarrow>
      SubmitJob_body r =
        Inr (JSONBody (JObject
               ([(''file'', JString (if HasPrefix (JobDataSet r) ''//'' then JobDataSet r
                                     else ''//'' @ JobDataSet r))] @
                (if Volume r \<noteq> [] then [(''volume'', JString (Volume r))] else []))),
             ''application/json'')) \<and>
   (JobStatement r = [] \<and> JobDataSet r = [] \<and> JobLocalFile r \<noteq> [] \<longrightarrow>
      SubmitJob_body r =
        Inr (JSONBody (JObject
               ([(''file'', JString (JobLocalFile r))] @
                (if Directory r \<noteq> [] then [(''directory'', JString (Directory r))] else []) @
                (if Extension r \<noteq> [] then [(''extension'', JString (Extension r))] else []))),
             ''application/json'')) \<and>
   (JobStatement r \<noteq> [] \<longrightarrow>
      requests (snd (SubmitJob session r w)) =
        (if url_Parse w (BaseURL session @ ''/restjobs/jobs'') = None
         then requests w @
           [\<lparr>Method = ''PUT'', URL = BaseURL session @ ''/restjobs/jobs'',
             Header = (Headers session)(''Content-Type'' \<mapsto> ''text/plain''),
             Body = TextBody (JobStatement r)\<rparr>]
         else requests w)) \<and>
   (JobStatement r = [] \<and> JobDataSet r \<noteq> [] \<longrightarrow>
      requests (snd (SubmitJob session r w)) =
        (if url_Parse w (BaseURL session @ ''/restjobs/jobs'') = None
         then requests w @
           [\<lparr>Method = ''PUT'', URL = BaseURL session @ ''/restjobs/jobs'',
             Header = (Headers session)(''Content-Type'' \<mapsto> ''application/json''),
             Body = JSONBody (JObject
               ([(''file'', JString (if HasPrefix (JobDataSet r) ''//'' then JobDataSet r
                                     else ''//'' @ JobDataSet r))] @
                (if Volume r \<noteq> [] then [(''volume'', JString (Volume r))] else [])))\<rparr>]
         else requests w)) \<and>
   (JobStatement r = [] \<and> JobDataSet r = [] \<and> JobLocalFile r \<noteq> [] \<longrightarrow>
      requests (snd (SubmitJob session r w)) =
        (if url_Parse w (BaseURL session @ ''/restjobs/jobs'') = None
         then requests w @
           [\<lparr>Method = ''PUT'', URL = BaseURL session @ ''/restjobs/jobs'',
             Header = (Headers session)(''Content-Type'' \<mapsto> ''application/json''),
             Body = JSONBody (JObject
               ([(''file'', JString (JobLocalFile r))] @
                (if Directory r \<noteq> [] then [(''directory'', JString (Directory r))] else []) @
                (if Extension r \<noteq> [] then [(''extension'', JString (Extension r))] else [])))\<rparr>]
         else requests w)) \<and>
   (SubmitJob_body r = Inr (b, ct) \<longrightarrow>
      fst (SubmitJob session r w) =
        (case url_Parse w (BaseURL session @ ''/restjobs/jobs'') of
           Some err \<Rightarrow> Inl (Errorf_w ''failed to create request: '' err)
         | None \<Rightarrow>
             (case server w (length (requests w))
                     \<lparr>Method = ''PUT'', URL = BaseURL session @ ''/restjobs/jobs'',
                       Header = (Headers session)(''Content-Type'' \<mapsto> ct), Body = b\<rparr> of
                Inl err \<Rightarrow> Inl (Errorf_w ''failed to make request: '' err)
              | Inr resp \<Rightarrow>
                  if StatusCode resp \<noteq> 201 \<and> StatusCode resp \<noteq> 200 \<and> StatusCode resp \<noteq> 202
                  then Inl (statusError resp)
                  else (case Decode decodeSubmitJobResponse zeroSubmitJobResponse (Response.Body resp)
                               (BodyErr resp) of
                          Inl err \<Rightarrow> Inl (Errorf_w ''failed to decode response: '' err)
                        | Inr submitResponse \<Rightarrow> Inr submitResponse))))"
proof -
  have a: "ValidateJobRequest (Some r) =
      Some (Errorf ''at least one job source must be specified (jobStatement, jobDataSet, or jobLocalFile)'')
    \<longleftrightarrow> JobStatement r = [] \<and> JobDataSet r = [] \<and> JobLocalFile r = []"
    by (simp add: ValidateJobRequest_def Errorf_def)
  have b: "ValidateJobRequest (Some r) = None \<longleftrightarrow>
      (JobStatement r \<noteq> [] \<or> JobDataSet r \<noteq> [] \<or> JobLocalFile r \<noteq> []) \<and>
      (JobStatement r = [] \<or> Contains (ToUpper (JobStatement r)) ''JOB'') \<and>
      (JobDataSet r = [] \<or> isValidDatasetName (JobDataSet r))"
    by (auto simp: ValidateJobRequest_def)
  have c: "JobStatement r = [] \<and> JobDataSet r = [] \<and> JobLocalFile r = [] \<longrightarrow>
      SubmitJob session r w =
        (Inl (Errorf ''no job source specified (jobStatement, jobDataSet, or jobLocalFile)''), w)"
    by (simp add: SubmitJob_def SubmitJob_body_def)
  have d: "JobStatement r \<noteq> [] \<longrightarrow> SubmitJob_body r = Inr (TextBody (JobStatement r), ''text/plain'')"
    by (simp add: SubmitJob_body_def)
  have e: "JobStatement r = [] \<and> JobDataSet r \<noteq> [] \<longrightarrow>
      SubmitJob_body r =
        Inr (JSONBody (JObject
               ([(''file'', JString (if HasPrefix (JobDataSet r) ''//'' then JobDataSet r
                                     else ''//'' @ JobDataSet r))] @
                (if Volume r \<noteq> [] then [(''volume'', JString (Volume r))] else []))),
             ''application/json'')"
    by (simp add: SubmitJob_body_def Let_def)
  have f: "JobStatement r = [] \<and> JobDataSet r = [] \<and> JobLocalFile r \<noteq> [] \<longrightarrow>
      SubmitJob_body r =
        Inr (JSONBody (JObject
               ([(''file'', JString (JobLocalFile r))] @
                (if Directory r \<noteq> [] then [(''directory'', JString (Directory r))] else []) @
                (if Extension r \<noteq> [] then [(''extension'', JString (Extension r))] else []))),
             ''application/json'')"
    by (simp add: SubmitJob_body_def)
  have g: "JobStatement r \<noteq> [] \<longrightarrow>
      requests (snd (SubmitJob session r w)) =
        (if url_Parse w (BaseURL session @ ''/restjobs/jobs'') = None
         then requests w @
           [\<lparr>Method = ''PUT'', URL = BaseURL session @ ''/restjobs/jobs'',
             Header = (Headers session)(''Content-Type'' \<mapsto> ''text/plain''),
             Body = TextBody (JobStatement r)\<rparr>]
         else requests w)"
    using d SubmitJob_sends [of r "TextBody (JobStatement r)" "''text/plain''" session w] by blast
  have h: "JobStatement r = [] \<and> JobDataSet r \<noteq> [] \<longrightarrow>
      requests (snd (SubmitJob session r w)) =
        (if url_Parse w (BaseURL session @ ''/restjobs/jobs'') = None
         then requests w @
           [\<lparr>Method = ''PUT'', URL = BaseURL session @ ''/restjobs/jobs'',
             Header = (Headers session)(''Content-Type'' \<mapsto> ''application/json''),
             Body = JSONBody (JObject
               ([(''file'', JString (if HasPrefix (JobDataSet r) ''//'' then JobDataSet r
                                     else ''//'' @ JobDataSet r))] @
                (if Volume r \<noteq> [] then [(''volume'', JString (Volume r))] else [])))\<rparr>]
         else requests w)"
    using e SubmitJob_sends [of r _ "''application/json''" session w] by blast
  have i: "JobStatement r = [] \<and> JobDataSet r = [] \<and> JobLocalFile r \<noteq> [] \<longrightarrow>
      requests (snd (SubmitJob session r w)) =
        (if url_Parse w (BaseURL session @ ''/restjobs/jobs'') = None
         then requests w @
           [\<lparr>Method = ''PUT'', URL = BaseURL session @ ''/restjobs/jobs'',
             Header = (Headers session)(''Content-Type'' \<mapsto> ''application/json''),
             Body = JSONBody (JObject
               ([(''file'', JString (JobLocalFile r))] @
                (if Directory r \<noteq> [] then [(''directory'', JString (Directory r))] else []) @
                (if Extension r \<noteq> [] then [(''extension'', JString (Extension r))] else [])))\<rparr>]
         else requests w)"
    using f SubmitJob_sends [of r _ "''application/json''" session w] by blast
  have j: "SubmitJob_body r = Inr (b, ct) \<longrightarrow>
      fst (SubmitJob session r w) =
        (case url_Parse w (BaseURL session @ ''/restjobs/jobs'') of
           Some err \<Rightarrow> Inl (Errorf_w ''failed to create request: '' err)
         | None \<Rightarrow>
             (case server w (length (requests w))
                     \<lparr>Method = ''PUT'', URL = BaseURL session @ ''/restjobs/jobs'',
                       Header = (Headers session)(''Content-Type'' \<mapsto> ct), Body = b\<rparr> of
                Inl err \<Rightarrow> Inl (Errorf_w ''failed to make request: '' err)
              | Inr resp \<Rightarrow>
                  if StatusCode resp \<noteq> 201 \<and> StatusCode resp \<noteq> 200 \<and> StatusCode resp \<noteq> 202
                  then Inl (statusError resp)
                  else (case Decode decodeSubmitJobResponse zeroSubmitJobResponse (Response.Body resp)
                               (BodyErr resp) of
                          Inl err \<Rightarrow> Inl (Errorf_w ''failed to decode response: '' err)
                        | Inr submitResponse \<Rightarrow> Inr submitResponse)))"
    using SubmitJob_result [of r b ct session w] by blast
  show ?thesis
    using a b c d e f g h i j by (intro conjI)
qed

theorem job_sources_witness:
  \<open>ValidateJobRequest (Some \<lparr>JobDataSet = ''USER.JCL'', JobLocalFile = ''job.jcl'',
      JobStatement = ''//A JOB'', Directory = [], Extension = [], Volume = []\<rparr>) = None \<and>
   SubmitJob_body \<lparr>JobDataSet = ''USER.JCL'', JobLocalFile = ''job.jcl'',
      JobStatement = ''//A JOB'', Directory = [], Extension = [], Volume = []\<rparr> =
     Inr (TextBody ''//A JOB'', ''text/plain'') \<and>
   SubmitJob example_session \<lparr>JobDataSet = [], JobLocalFile = [], JobStatement = [],
      Directory = [], Extension = [], Volume = []\<rparr>
      (constant_world \<lparr>StatusCode = 201, Body = [], BodyErr = None\<rparr>) =
     (Inl (Errorf ''no job source specified (jobStatement, jobDataSet, or jobLocalFile)''),
      constant_world \<lparr>StatusCode = 201, Body = [], BodyErr = None\<rparr>) \<and>
   requests (snd (SubmitJob example_session \<lparr>JobDataSet = ''USER.JCL'', JobLocalFile = ''job.jcl'',
      JobStatement = ''//A JOB'', Directory = [], Extension = [], Volume = []\<rparr>
      (constant_world \<lparr>StatusCode = 201, Body = ''{"jobid":"JOB00042","jobname":"A"}'', BodyErr = None\<rparr>))) =
     [\<lparr>Method = ''PUT'', URL = ''https://mainframe.example.com/zosmf/restjobs/jobs'',
       Header = (Headers example_session)(''Content-Type'' \<mapsto> ''text/plain''),
       Body = TextBody ''//A JOB''\<rparr>] \<and>
   requests (snd (SubmitJob example_session \<lparr>JobDataSet = ''USER.JCL'', JobLocalFile = ''job.jcl'',
      JobStatement = [], Directory = [], Extension = [], Volume = []\<rparr>
      (constant_world \<lparr>StatusCode = 201, Body = ''{"jobid":"JOB00042","jobname":"A"}'', BodyErr = None\<rparr>))) =
     [\<lparr>Method = ''PUT'', URL = ''https://mainframe.example.com/zosmf/restjobs/jobs'',
       Header = (Headers example_session)(''Content-Type'' \<mapsto> ''application/json''),
       Body = JSONBody (JObject [(''file'', JString ''//USER.JCL'')])\<rparr>] \<and>
   fst (SubmitJob example_session \<lparr>JobDataSet = ''USER.JCL'', JobLocalFile = ''job.jcl'',
      JobStatement = ''//A JOB'', Directory = [], Extension = [], Volume = []\<rparr>
      (constant_world \<lparr>StatusCode = 201, Body = ''{"jobid":"JOB00042","jobname":"A"}'', BodyErr = None\<rparr>)) =
     Inr (zeroSubmitJobResponse\<lparr>SubmitJobResponse.JobID := ''JOB00042'', SubmitJobResponse.JobName := ''A''\<rparr>)\<close>
proof -
  let ?two = "\<lparr>JobDataSet = ''USER.JCL'', JobLocalFile = ''job.jcl'',
      JobStatement = ''//A JOB'', Directory = [], Extension = [], Volume = []\<rparr>"
  let ?ds = "\<lparr>JobDataSet = ''USER.JCL'', JobLocalFile = ''job.jcl'',
      JobStatement = [], Directory = [], Extension = [], Volume = []\<rparr>"
  let ?none = "\<lparr>JobDataSet = [], JobLocalFile = [], JobStatement = [],
      Directory = [], Extension = [], Volume = []\<rparr>"
  let ?w = \<open>constant_world \<lparr>StatusCode = 201, Body = ''{"jobid":"JOB00042","jobname":"A"}'', BodyErr = None\<rparr>\<close>
  have j: "Contains (ToUpper ''//A JOB'') ''JOB''" by code_simp
  have v: "isValidDatasetName ''USER.JCL''" by code_simp
  have p: "\<not> HasPrefix ''USER.JCL'' ''//''" by code_simp
  have dc: \<open>Decode decodeSubmitJobResponse zeroSubmitJobResponse ''{"jobid":"JOB00042","jobname":"A"}'' None =
      Inr (zeroSubmitJobResponse\<lparr>SubmitJobResponse.JobID := ''JOB00042'', SubmitJobResponse.JobName := ''A''\<rparr>)\<close>
    by code_simp
  note t2 = job_sources [where r = ?two and session = example_session and w = ?w
      and b = "TextBody ''//A JOB''" and ct = "''text/plain''"]
  have a1: "ValidateJobRequest (Some ?two) = None"
    using t2 j v by simp
  have a2: "SubmitJob_body ?two = Inr (TextBody ''//A JOB'', ''text/plain'')"
    using t2 by simp
  have a3: "SubmitJob example_session ?none (constant_world \<lparr>StatusCode = 201, Body = [], BodyErr = None\<rparr>) =
     (Inl (Errorf ''no job source specified (jobStatement, jobDataSet, or jobLocalFile)''),
      constant_world \<lparr>StatusCode = 201, Body = [], BodyErr = None\<rparr>)"
    using job_sources [where r = ?none and session = example_session
        and w = "constant_world \<lparr>StatusCode = 201, Body = [], BodyErr = None\<rparr>"]
    by simp
  have a4: "requests (snd (SubmitJob example_session ?two ?w)) =
     [\<lparr>Method = ''PUT'', URL = ''https://mainframe.example.com/zosmf/restjobs/jobs'',
       Header = (Headers example_session)(''Content-Type'' \<mapsto> ''text/plain''),
       Body = TextBody ''//A JOB''\<rparr>]"
    using t2 by (simp add: constant_world_def example_session_def)
  have a5: "requests (snd (SubmitJob example_session ?ds ?w)) =
     [\<lparr>Method = ''PUT'', URL = ''https://mainframe.example.com/zosmf/restjobs/jobs'',
       Header = (Headers example_session)(''Content-Type'' \<mapsto> ''application/json''),
       Body = JSONBody (JObject [(''file'', JString ''//USER.JCL'')])\<rparr>]"
    using job_sources [where r = ?ds and session = example_session and w = ?w] p
    by (simp add: constant_world_def example_session_def)
  have a6: "fst (SubmitJob example_session ?two ?w) =
     Inr (zeroSubmitJobResponse\<lparr>SubmitJobResponse.JobID := ''JOB00042'', SubmitJobResponse.JobName := ''A''\<rparr>)"
    using t2 a2 dc by (simp add: constant_world_def)
  from a1 a2 a3 a4 a5 a6 show ?thesis by simp
qed

subsection \<open>Session construction\<close>

text \<open>
  The claim C1 as the specification words it fails on two profiles.  With port 0 the
  session's base URL has no port, where the claimed URL has \<open>:0\<close>.  With the protocol set
  to https and port 8080 the session's base URL starts with http.
\<close>

theorem NewSession_BaseURL_counterexample:
  "map_sum id BaseURL (NewSession \<lparr>Name = [], Host = ''localhost'', Port = 0, User = [],
      Password = [], RejectUnauthorized = False, BasePath = [], Protocol = [], Encoding = [],
      ResponseTimeout = 0, CertFile = [], CertKeyFile = []\<rparr>) = Inr ''https://localhost/zosmf'' \<and>
   claimed_BaseURL \<lparr>Name = [], Host = ''localhost'', Port = 0, User = [],
      Password = [], RejectUnauthorized = False, BasePath = [], Protocol = [], Encoding = [],
      ResponseTimeout = 0, CertFile = [], CertKeyFile = []\<rparr> = ''https://localhost:0/zosmf'' \<and>
   map_sum id BaseURL (NewSession \<lparr>Name = [], Host = ''localhost'', Port = 8080, User = [],
      Password = [], RejectUnauthorized = False, BasePath = [], Protocol = ''https'', Encoding = [],
      ResponseTimeout = 0, CertFile = [], CertKeyFile = []\<rparr>) = Inr ''http://localhost:8080/zosmf'' \<and>
   claimed_BaseURL \<lparr>Name = [], Host = ''localhost'', Port = 8080, User = [],
      Password = [], RejectUnauthorized = False, BasePath = [], Protocol = ''https'', Encoding = [],
      ResponseTimeout = 0, CertFile = [], CertKeyFile = []\<rparr> = ''https://localhost:8080/zosmf''"
  by (simp add: NewSession_def claimed_BaseURL_def Itoa_def decimal.simps digits_def)

text \<open>
  C1, amended.  For every profile, \<open>NewSession\<close> succeeds and its base URL is the protocol,
  \<open>://\<close>, the host, the port after a colon unless the port is 0, 80 or 443, and the base
  path.  The protocol is http when the port is 80 or 8080, whatever the profile says;
  otherwise it is the profile's protocol, and https when that is empty.  The base path is
  \<open>/zosmf\<close> when the profile has none, and gets a leading slash when it lacks one.  This is
  the claimed URL for every profile whose port is not 0 and whose protocol is empty or
  whose port is neither 80 nor 8080.
\<close>

theorem NewSession_BaseURL:
  "map_sum id BaseURL (NewSession p) =
     Inr ((if ZOSMFProfile.Port p = 80 \<or> ZOSMFProfile.Port p = 8080 then ''http''
           else if ZOSMFProfile.Protocol p = [] then ''https'' else ZOSMFProfile.Protocol p)
          @ ''://'' @ ZOSMFProfile.Host p
          @ (if ZOSMFProfile.Port p \<noteq> 0 \<and> ZOSMFProfile.Port p \<noteq> 80 \<and> ZOSMFProfile.Port p \<noteq> 443
             then '':'' @ Itoa (ZOSMFProfile.Port p) else [])
          @ (if ZOSMFProfile.BasePath p = [] then ''/zosmf''
             else if hd (ZOSMFProfile.BasePath p) = CHR ''/'' then ZOSMFProfile.BasePath p
             else ''/'' @ ZOSMFProfile.BasePath p)) \<and>
   (ZOSMFProfile.Port p \<noteq> 0 \<and>
    (ZOSMFProfile.Protocol p = [] \<or> (ZOSMFProfile.Port p \<noteq> 80 \<and> ZOSMFProfile.Port p \<noteq> 8080))
    \<longrightarrow> map_sum id BaseURL (NewSession p) = Inr (claimed_BaseURL p))"
  unfolding NewSession_def claimed_BaseURL_def Let_def by auto

theorem NewSession_BaseURL_witness:
  "map_sum id BaseURL (NewSession \<lparr>Name = ''zosmf'', Host = ''mainframe.example.com'', Port = 8443,
      User = ''user'', Password = ''pass'', RejectUnauthorized = True, BasePath = ''api/v1'',
      Protocol = [], Encoding = [], ResponseTimeout = 0, CertFile = [], CertKeyFile = []\<rparr>)
     = Inr ''https://mainframe.example.com:8443/api/v1'' \<and>
   claimed_BaseURL \<lparr>Name = ''zosmf'', Host = ''mainframe.example.com'', Port = 8443,
      User = ''user'', Password = ''pass'', RejectUnauthorized = True, BasePath = ''api/v1'',
      Protocol = [], Encoding = [], ResponseTimeout = 0, CertFile = [], CertKeyFile = []\<rparr>
     = ''https://mainframe.example.com:8443/api/v1''"
proof -
  let ?p = "\<lparr>Name = ''zosmf'', Host = ''mainframe.example.com'', Port = 8443,
      User = ''user'', Password = ''pass'', RejectUnauthorized = True, BasePath = ''api/v1'',
      Protocol = [], Encoding = [], ResponseTimeout = 0, CertFile = [], CertKeyFile = []\<rparr>"
  have c: "claimed_BaseURL ?p = ''https://mainframe.example.com:8443/api/v1''"
    by (simp add: claimed_BaseURL_def Itoa_def decimal.simps digits_def)
  have h: "ZOSMFProfile.Port ?p \<noteq> 0 \<and>
    (ZOSMFProfile.Protocol ?p = [] \<or> (ZOSMFProfile.Port ?p \<noteq> 80 \<and> ZOSMFProfile.Port ?p \<noteq> 8080))"
    by simp
  from NewSession_BaseURL [of ?p] h have "map_sum id BaseURL (NewSession ?p) = Inr (claimed_BaseURL ?p)"
    by blast
  with c show ?thesis by simp
qed

subsection \<open>Retry of member uploads\<close>

lemma uploadWithRetry_loop_step:
  assumes "attempt \<le> maxRetries"
  shows "uploadWithRetry_loop session request attempt lastError w =
     (case UploadContent session request w of
        (None, w1) \<Rightarrow> (None, w1)
      | (Some err, w1) \<Rightarrow>
          if \<not> isRetryable err then (Some err, w1)
          else uploadWithRetry_loop session request (attempt + 1) (Some err)
                 (if attempt < maxRetries then Sleep (int attempt * retryDelay) w1 else w1))"
  by (subst uploadWithRetry_loop.simps) (simp only: assms if_True)

lemma uploadWithRetry_loop_end:
  assumes "\<not> attempt \<le> maxRetries"
  shows "uploadWithRetry_loop session request attempt (Some e) w =
     (Some (Errorf_w ''upload failed after 3 attempts: '' e), w)"
  using assms
  by (subst uploadWithRetry_loop.simps) (simp add: maxRetries_def Itoa_def decimal.simps digits_def)

lemma uploadWithRetry_unrolled0:
  "uploadWithRetry session request memberExists w =
     (case UploadContent session request w of
        (None, w1) \<Rightarrow> (None, w1)
      | (Some e1, w1) \<Rightarrow>
          if \<not> isRetryable e1 then (Some e1, w1)
          else
            (case UploadContent session request (Sleep (1 * 2000000000) w1) of
               (None, w2) \<Rightarrow> (None, w2)
             | (Some e2, w2) \<Rightarrow>
                 if \<not> isRetryable e2 then (Some e2, w2)
                 else
                   (case UploadContent session request (Sleep (2 * 2000000000) w2) of
                      (None, w3) \<Rightarrow> (None, w3)
                    | (Some e3, w3) \<Rightarrow>
                        if \<not> isRetryable e3 then (Some e3, w3)
                        else (Some (Errorf_w ''upload failed after 3 attempts: '' e3), w3))))"
  unfolding uploadWithRetry_def
  by (simp add: uploadWithRetry_loop_step uploadWithRetry_loop_end retryDelay_def maxRetries_def
           split: prod.splits option.splits)

lemma roundTrip_effect:
  "roundTrip session method apiURL b ct w = (res, w') \<Longrightarrow>
   sleeps w' = sleeps w \<and> length (requests w') \<le> length (requests w) + 1 \<and>
   length (requests w) \<le> length (requests w')"
  by (auto simp: roundTrip_def NewRequest_def Do_def Let_def split: option.splits sum.splits prod.splits)

lemma UploadContent_effect:
  "UploadContent session request w = (res, w') \<Longrightarrow>
   sleeps w' = sleeps w \<and> length (requests w') \<le> length (requests w) + 1 \<and>
   length (requests w) \<le> length (requests w')"
  unfolding UploadContent_def Let_def
  by (auto split: prod.splits sum.splits if_splits dest: roundTrip_effect)

lemma Sleep_effect: "sleeps (Sleep d w) = sleeps w @ [d] \<and> requests (Sleep d w) = requests w"
  by (simp add: Sleep_def)


lemma uploadWithRetry_effect:
  assumes "uploadWithRetry session request memberExists w = (res, w')"
  shows "length (requests w') \<le> length (requests w) + 3 \<and>
         (sleeps w' = sleeps w \<or> sleeps w' = sleeps w @ [2000000000] \<or>
          sleeps w' = sleeps w @ [2000000000, 4000000000])"
proof -
  obtain r1 w1 where u1: "UploadContent session request w = (r1, w1)" by fastforce
  obtain r2 w2 where u2: "UploadContent session request (Sleep 2000000000 w1) = (r2, w2)" by fastforce
  obtain r3 w3 where u3: "UploadContent session request (Sleep 4000000000 w2) = (r3, w3)" by fastforce
  note e1 = UploadContent_effect [OF u1]
  note e2 = UploadContent_effect [OF u2]
  note e3 = UploadContent_effect [OF u3]
  have "w' = w1 \<or> w' = w2 \<or> w' = w3"
    using assms u1 u2 u3 unfolding uploadWithRetry_unrolled0
    by (auto split: option.splits if_splits)
  then show ?thesis
    using e1 e2 e3 by (auto simp: Sleep_effect)
qed

text \<open>
  C4.  \<open>uploadWithRetry\<close> makes at most three attempts.  It returns at once when an
  attempt succeeds and when an attempt fails with an error that is not retryable, and that
  error is the result.  After a retryable failure of attempt 1 it sleeps 1 times 2 seconds,
  after one of attempt 2 it sleeps 2 times 2 seconds, and after a retryable failure of
  attempt 3 it returns an error that wraps this last failure.  An error is retryable
  exactly when its lower-cased text contains one of isrz002, i/o error, lmfind error,
  directory, timeout, connection.  At most three requests are sent.
\<close>

theorem uploadWithRetry_spec:
  "uploadWithRetry session request memberExists w =
     (case UploadContent session request w of
        (None, w1) \<Rightarrow> (None, w1)
      | (Some e1, w1) \<Rightarrow>
          if \<not> isRetryable e1 then (Some e1, w1)
          else
            (case UploadContent session request (Sleep (1 * 2000000000) w1) of
               (None, w2) \<Rightarrow> (None, w2)
             | (Some e2, w2) \<Rightarrow>
                 if \<not> isRetryable e2 then (Some e2, w2)
                 else
                   (case UploadContent session request (Sleep (2 * 2000000000) w2) of
                      (None, w3) \<Rightarrow> (None, w3)
                    | (Some e3, w3) \<Rightarrow>
                        if \<not> isRetryable e3 then (Some e3, w3)
                        else (Some (Errorf_w ''upload failed after 3 attempts: '' e3), w3)))) \<and>
   length (requests (snd (uploadWithRetry session request memberExists w))) \<le> length (requests w) + 3 \<and>
   (sleeps (snd (uploadWithRetry session request memberExists w)) = sleeps w \<or>
    sleeps (snd (uploadWithRetry session request memberExists w)) = sleeps w @ [1 * 2000000000] \<or>
    sleeps (snd (uploadWithRetry session request memberExists w)) = sleeps w @ [1 * 2000000000, 2 * 2000000000]) \<and>
   (isRetryable err \<longleftrightarrow>
      Contains (ToLower (Error_text err)) ''isrz002'' \<or> Contains (ToLower (Error_text err)) ''i/o error'' \<or>
      Contains (ToLower (Error_text err)) ''lmfind error'' \<or> Contains (ToLower (Error_text err)) ''directory'' \<or>
      Contains (ToLower (Error_text err)) ''timeout'' \<or> Contains (ToLower (Error_text err)) ''connection'') \<and>
   Unwrap (Errorf_w ''upload failed after 3 attempts: '' err) = Some err \<and>
   Error_text (Errorf_w ''upload failed after 3 attempts: '' err) =
     ''upload failed after 3 attempts: '' @ Error_text err"
proof -
  have wrap: "Unwrap (Errorf_w ''upload failed after 3 attempts: '' err) = Some err"
    "Error_text (Errorf_w ''upload failed after 3 attempts: '' err) =
       ''upload failed after 3 attempts: '' @ Error_text err"
    by (simp_all add: Errorf_w_def)
  obtain res w' where r: "uploadWithRetry session request memberExists w = (res, w')" by fastforce
  from uploadWithRetry_effect [OF r] r
  have "length (requests (snd (uploadWithRetry session request memberExists w))) \<le> length (requests w) + 3"
    and "sleeps (snd (uploadWithRetry session request memberExists w)) = sleeps w \<or>
    sleeps (snd (uploadWithRetry session request memberExists w)) = sleeps w @ [1 * 2000000000] \<or>
    sleeps (snd (uploadWithRetry session request memberExists w)) = sleeps w @ [1 * 2000000000, 2 * 2000000000]"
    by simp_all
  moreover have "isRetryable err \<longleftrightarrow>
      Contains (ToLower (Error_text err)) ''isrz002'' \<or> Contains (ToLower (Error_text err)) ''i/o error'' \<or>
      Contains (ToLower (Error_text err)) ''lmfind error'' \<or> Contains (ToLower (Error_text err)) ''directory'' \<or>
      Contains (ToLower (Error_text err)) ''timeout'' \<or> Contains (ToLower (Error_text err)) ''connection''"
    by (simp add: isRetryable_def Let_def)
  ultimately show ?thesis
    using uploadWithRetry_unrolled0 [of session request memberExists w] wrap by simp
qed

theorem uploadWithRetry_spec_witness:
  "fst (uploadWithRetry example_session example_upload True flaky_world) = None \<and>
   sleeps (snd (uploadWithRetry example_session example_upload True flaky_world)) =
     [2000000000, 4000000000] \<and>
   length (requests (snd (uploadWithRetry example_session example_upload True flaky_world))) = 3"
proof -
  have t: "statusError \<lparr>StatusCode = 500, Body = ''ISRZ002 I/O error'', BodyErr = None\<rparr> =
      Errorf ''API request failed with status 500: ISRZ002 I/O error''"
    by (simp add: statusError_def Itoa_def decimal.simps digits_def)
  have r: "isRetryable (Errorf ''API request failed with status 500: ISRZ002 I/O error'')"
    by code_simp
  have u: "PathEscape ''USER.PDS'' = ''USER.PDS''" "PathEscape ''MEMBER1'' = ''MEMBER1''"
    by code_simp+
  show ?thesis
    using uploadWithRetry_spec [of example_session example_upload True flaky_world]
    by (simp add: UploadContent_def roundTrip_def NewRequest_def Do_def Sleep_def Let_def t r u
          example_session_def example_upload_def flaky_world_def)
qed

subsection \<open>Copy and rename\<close>

lemma copyRequest_requests:
  "requests (snd (copyRequest session apiURL requestBody w)) =
     (if url_Parse w apiURL = None
      then requests w @ [\<lparr>Method = ''PUT'', URL = apiURL,
                           Header = (Headers session)(''Content-Type'' \<mapsto> ''application/json''),
                           Body = JSONBody requestBody\<rparr>]
      else requests w)"
  by (simp add: copyRequest_def roundTrip_def NewRequest_def Do_def Let_def
           split: option.splits sum.splits prod.splits)

text \<open>
  C8.  Copying a sequential dataset, copying a member and renaming a dataset each send
  one request, unless the URL cannot be parsed, in which case none is sent.  The request
  is a PUT to the URL of the target: the base URL, \<open>/restfiles/ds/\<close> and the escaped target
  name, for a member copy followed by the escaped target member in parentheses.  The source
  is not part of the URL.  The body is the JSON object with \<open>request\<close> equal to \<open>copy\<close> or
  \<open>rename\<close> and \<open>from-dataset\<close> equal to the object with \<open>dsn\<close> the source name and, for a
  member copy, \<open>member\<close> the source member.
\<close>

theorem copy_rename_requests:
  "requests (snd (CopySequentialDataset session sourceName targetName w)) =
     (if url_Parse w (BaseURL session @ ''/restfiles/ds/'' @ PathEscape targetName) = None
      then requests w @
        [\<lparr>Method = ''PUT'',
          URL = BaseURL session @ ''/restfiles/ds/'' @ PathEscape targetName,
          Header = (Headers session)(''Content-Type'' \<mapsto> ''application/json''),
          Body = JSONBody (JObject [(''request'', JString ''copy''),
                                    (''from-dataset'', JObject [(''dsn'', JString sourceName)])])\<rparr>]
      else requests w) \<and>
   requests (snd (CopyMember session sourceName sourceMember targetName targetMember w)) =
     (if url_Parse w (BaseURL session @ ''/restfiles/ds/'' @ PathEscape targetName @ ''('' @
                        PathEscape targetMember @ '')'') = None
      then requests w @
        [\<lparr>Method = ''PUT'',
          URL = BaseURL session @ ''/restfiles/ds/'' @ PathEscape targetName @ ''('' @
                  PathEscape targetMember @ '')'',
          Header = (Headers session)(''Content-Type'' \<mapsto> ''application/json''),
          Body = JSONBody (JObject [(''request'', JString ''copy''),
                                    (''from-dataset'', JObject [(''dsn'', JString sourceName),
                                                                (''member'', JString sourceMember)])])\<rparr>]
      else requests w) \<and>
   requests (snd (RenameDataset session oldName newName w)) =
     (if url_Parse w (BaseURL session @ ''/restfiles/ds/'' @ PathEscape newName) = None
      then requests w @
        [\<lparr>Method = ''PUT'',
          URL = BaseURL session @ ''/restfiles/ds/'' @ PathEscape newName,
          Header = (Headers session)(''Content-Type'' \<mapsto> ''application/json''),
          Body = JSONBody (JObject [(''request'', JString ''rename''),
                                    (''from-dataset'', JObject [(''dsn'', JString oldName)])])\<rparr>]
      else requests w)"
  unfolding CopySequentialDataset_def CopyMember_def RenameDataset_def Let_def copyRequest_requests
  by simp

theorem copy_rename_requests_witness:
  "map Method (requests (snd (CopyMember example_session ''USER.SRC'' ''OLD'' ''USER.TGT'' ''NEW''
      (constant_world \<lparr>StatusCode = 201, Body = [], BodyErr = None\<rparr>)))) = [''PUT''] \<and>
   map Request.URL (requests (snd (CopyMember example_session ''USER.SRC'' ''OLD'' ''USER.TGT'' ''NEW''
      (constant_world \<lparr>StatusCode = 201, Body = [], BodyErr = None\<rparr>)))) =
     [''https://mainframe.example.com/zosmf/restfiles/ds/USER.TGT(NEW)''] \<and>
   map Request.Body (requests (snd (CopyMember example_session ''USER.SRC'' ''OLD'' ''USER.TGT'' ''NEW''
      (constant_world \<lparr>StatusCode = 201, Body = [], BodyErr = None\<rparr>)))) =
     [JSONBody (JObject [(''request'', JString ''copy''),
                         (''from-dataset'', JObject [(''dsn'', JString ''USER.SRC''),
                                                     (''member'', JString ''OLD'')])])] \<and>
   fst (CopyMember example_session ''USER.SRC'' ''OLD'' ''USER.TGT'' ''NEW''
      (constant_world \<lparr>StatusCode = 201, Body = [], BodyErr = None\<rparr>)) = None"
proof -
  have u: "PathEscape ''USER.TGT'' = ''USER.TGT''" "PathEscape ''NEW'' = ''NEW''"
    by code_simp+
  have ok: "fst (CopyMember example_session ''USER.SRC'' ''OLD'' ''USER.TGT'' ''NEW''
      (constant_world \<lparr>StatusCode = 201, Body = [], BodyErr = None\<rparr>)) = None"
    by (simp add: CopyMember_def copyRequest_def roundTrip_def NewRequest_def Do_def Let_def
          constant_world_def)
  note copy_rename_requests [where session = example_session and sourceName = "''USER.SRC''"
      and targetName = "''USER.TGT''" and sourceMember = "''OLD''" and targetMember = "''NEW''"
      and w = "constant_world \<lparr>StatusCode = 201, Body = [], BodyErr = None\<rparr>",
      THEN conjunct2, THEN conjunct1]
  with ok show ?thesis
    by (simp add: u constant_world_def example_session_def del: PathEscape.simps)
qed

subsection \<open>Parsing the list of jobs\<close>

lemma decodeElements_length:
  "decodeElements elem zero vs old = (xs, e) \<Longrightarrow> length xs = length vs"
  by (induction vs arbitrary: old xs e) (auto split: prod.splits)

lemma Unmarshal_JobList_wrapper:
  assumes "json_value body = Some (JObject [(''jobs'', JArray vs)], rest)" "skipSpace rest = []"
  shows "Unmarshal decodeJobList \<lparr>Jobs = []\<rparr> body =
           (case decodeElements decodeJob zeroJob vs [] of
              (js, None) \<Rightarrow> Inr \<lparr>Jobs = js\<rparr> | (js, Some e) \<Rightarrow> Inl e)"
  using assms
  by (simp add: Unmarshal_def decodeJobList_def decodeStruct_def JobList_field_def on_def
        decodeSlice_def saveError_def split: prod.splits option.splits)

lemma Unmarshal_Jobs_array:
  assumes "json_value body = Some (JArray vs, rest)" "skipSpace rest = []"
  shows "Unmarshal (decodeSlice decodeJob zeroJob) [] body =
           (case decodeElements decodeJob zeroJob vs [] of
              (js, None) \<Rightarrow> Inr js | (js, Some e) \<Rightarrow> Inl e)"
  using assms
  by (simp add: Unmarshal_def decodeSlice_def split: prod.splits option.splits)

lemma Unmarshal_JobList_array:
  assumes "json_value body = Some (JArray vs, rest)"
  shows "Unmarshal decodeJobList z body = Inl (if skipSpace rest \<noteq> [] then SyntaxError else UnmarshalTypeError)"
  using assms
  by (simp add: Unmarshal_def decodeJobList_def decodeStruct_def)

lemma Unmarshal_Jobs_object:
  assumes "json_value body = Some (JObject ms, rest)"
  shows "Unmarshal (decodeSlice decodeJob zeroJob) [] body =
           Inl (if skipSpace rest \<noteq> [] then SyntaxError else UnmarshalTypeError)"
  using assms
  by (simp add: Unmarshal_def decodeSlice_def)

lemma json_value_empty_object: "json_value ''{}'' = Some (JObject [], [])"
  by code_simp

lemma ListJobs_parse_wrapper:
  assumes "json_value body = Some (JObject [(''jobs'', JArray vs)], rest)" "skipSpace rest = []"
  shows "ListJobs_parse body =
           (case decodeElements decodeJob zeroJob vs [] of
              (js, None) \<Rightarrow> if vs \<noteq> [] then Inr \<lparr>Jobs = js\<rparr>
                             else Inl (Errorf (''failed to decode response: '' @ body))
            | (js, Some e) \<Rightarrow> Inl (Errorf (''failed to decode response: '' @ body)))"
proof -
  have ne: "body \<noteq> ''{}''" using assms(1) json_value_empty_object by auto
  obtain js e where d: "decodeElements decodeJob zeroJob vs [] = (js, e)" by fastforce
  then have len: "length js = length vs" by (rule decodeElements_length)
  show ?thesis
    using ne d len assms(2)
    by (cases e) (auto simp: ListJobs_parse_def Unmarshal_JobList_wrapper [OF assms]
        Unmarshal_Jobs_object [OF assms(1)])
qed

lemma ListJobs_parse_array:
  assumes "json_value body = Some (JArray vs, rest)" "skipSpace rest = []"
  shows "ListJobs_parse body =
           (case decodeElements decodeJob zeroJob vs [] of
              (js, None) \<Rightarrow> Inr \<lparr>Jobs = js\<rparr>
            | (js, Some e) \<Rightarrow> Inl (Errorf (''failed to decode response: '' @ body)))"
  using assms(2)
  by (auto simp: ListJobs_parse_def Unmarshal_JobList_array [OF assms(1)]
        Unmarshal_Jobs_array [OF assms] split: prod.splits option.splits)

text \<open>
  What \<open>ListJobs\<close> does with the two shapes when the array holds at least one job: the
  bare array is accepted whenever it decodes, and the wrapper object and the bare array
  with the same elements give the same jobs, or the decode error both.  The only error of
  the parsing is the decode error with the body in its text.
\<close>

lemma ListJobs_parse_nonempty:
  "(json_value body = Some (JArray vs, rest) \<and> skipSpace rest = [] \<and>
    Unmarshal (decodeSlice decodeJob zeroJob) [] body = Inr jobsArr
      \<longrightarrow> ListJobs_parse body = Inr \<lparr>Jobs = jobsArr\<rparr>) \<and>
   (Unmarshal (decodeSlice decodeJob zeroJob) [] body = Inr jobsArr
      \<longrightarrow> (\<exists>jl. ListJobs_parse body = Inr jl)) \<and>
   (json_value b1 = Some (JObject [(''jobs'', JArray js)], r1) \<and> skipSpace r1 = [] \<and>
    json_value b2 = Some (JArray js, r2) \<and> skipSpace r2 = [] \<and> js \<noteq> []
      \<longrightarrow> (\<exists>jobs. ListJobs_parse b1 = Inr \<lparr>Jobs = jobs\<rparr> \<and> ListJobs_parse b2 = Inr \<lparr>Jobs = jobs\<rparr>) \<or>
          (ListJobs_parse b1 = Inl (Errorf (''failed to decode response: '' @ b1)) \<and>
           ListJobs_parse b2 = Inl (Errorf (''failed to decode response: '' @ b2)))) \<and>
   ((\<exists>e. ListJobs_parse body = Inl e) \<longleftrightarrow>
      ListJobs_parse body = Inl (Errorf (''failed to decode response: '' @ body)))"
proof -
  have p2: "json_value body = Some (JArray vs, rest) \<and> skipSpace rest = [] \<and>
    Unmarshal (decodeSlice decodeJob zeroJob) [] body = Inr jobsArr
      \<longrightarrow> ListJobs_parse body = Inr \<lparr>Jobs = jobsArr\<rparr>"
    by (auto simp: ListJobs_parse_def Unmarshal_JobList_array)
  have p3: "Unmarshal (decodeSlice decodeJob zeroJob) [] body = Inr jobsArr
      \<longrightarrow> (\<exists>jl. ListJobs_parse body = Inr jl)"
    by (auto simp: ListJobs_parse_def split: sum.splits)
  have p4: "json_value b1 = Some (JObject [(''jobs'', JArray js)], r1) \<and> skipSpace r1 = [] \<and>
    json_value b2 = Some (JArray js, r2) \<and> skipSpace r2 = [] \<and> js \<noteq> []
      \<longrightarrow> (\<exists>jobs. ListJobs_parse b1 = Inr \<lparr>Jobs = jobs\<rparr> \<and> ListJobs_parse b2 = Inr \<lparr>Jobs = jobs\<rparr>) \<or>
          (ListJobs_parse b1 = Inl (Errorf (''failed to decode response: '' @ b1)) \<and>
           ListJobs_parse b2 = Inl (Errorf (''failed to decode response: '' @ b2)))"
    by (auto simp: ListJobs_parse_wrapper ListJobs_parse_array split: prod.splits option.splits)
  have p6: "(\<exists>e. ListJobs_parse body = Inl e) \<longleftrightarrow>
      ListJobs_parse body = Inl (Errorf (''failed to decode response: '' @ body))"
    by (auto simp: ListJobs_parse_def split: sum.splits if_splits)
  from p2 p3 p4 p6 show ?thesis by blast
qed

lemma ListJobs_parse_one_job:
  \<open>ListJobs_parse ''{"jobs":[{"jobid":"JOB00042","jobname":"PAYROLL","status":"OUTPUT"}]}'' =
     Inr \<lparr>Jobs = [zeroJob\<lparr>Job.JobID := ''JOB00042'', Job.JobName := ''PAYROLL'', Job.Status := ''OUTPUT''\<rparr>]\<rparr> \<and>
   ListJobs_parse ''[{"jobid":"JOB00042","jobname":"PAYROLL","status":"OUTPUT"}]'' =
     Inr \<lparr>Jobs = [zeroJob\<lparr>Job.JobID := ''JOB00042'', Job.JobName := ''PAYROLL'', Job.Status := ''OUTPUT''\<rparr>]\<rparr>\<close>
  by code_simp

text \<open>
  C2.  The wrapper object with an empty array decodes under the first shape, to the empty
  list of jobs, and \<open>ListJobs\<close> returns the decode error for it: the first result is kept
  only when it holds a job or the body is the two bytes \<open>{}\<close>, and the second attempt, for
  a bare array, fails on an object.  The same happens to the wrapper object with \<open>null\<close>
  for the jobs and to the empty object between white space, while the bare empty array,
  \<open>null\<close> and \<open>{}\<close> are accepted with no jobs.  So a body that parses under one of the two
  shapes is refused, which the claim excludes.
\<close>

theorem ListJobs_parse_empty_wrapper:
  \<open>Unmarshal decodeJobList \<lparr>Jobs = []\<rparr> ''{"jobs":[]}'' = Inr \<lparr>Jobs = []\<rparr> \<and>
   ListJobs_parse ''{"jobs":[]}'' = Inl (Errorf ''failed to decode response: {"jobs":[]}'') \<and>
   fst (ListJobs example_session None
          (constant_world \<lparr>StatusCode = 200, Body = ''{"jobs":[]}'', BodyErr = None\<rparr>)) =
     Inl (Errorf ''failed to decode response: {"jobs":[]}'') \<and>
   Unmarshal decodeJobList \<lparr>Jobs = []\<rparr> ''{"jobs":null}'' = Inr \<lparr>Jobs = []\<rparr> \<and>
   ListJobs_parse ''{"jobs":null}'' = Inl (Errorf ''failed to decode response: {"jobs":null}'') \<and>
   Unmarshal decodeJobList \<lparr>Jobs = []\<rparr> '' {} '' = Inr \<lparr>Jobs = []\<rparr> \<and>
   ListJobs_parse '' {} '' = Inl (Errorf ''failed to decode response:  {} '') \<and>
   ListJobs_parse ''[]'' = Inr \<lparr>Jobs = []\<rparr> \<and>
   ListJobs_parse ''null'' = Inr \<lparr>Jobs = []\<rparr> \<and>
   ListJobs_parse ''{}'' = Inr \<lparr>Jobs = []\<rparr>\<close>
proof -
  have p: \<open>Unmarshal decodeJobList \<lparr>Jobs = []\<rparr> ''{"jobs":[]}'' = Inr \<lparr>Jobs = []\<rparr> \<and>
      ListJobs_parse ''{"jobs":[]}'' = Inl (Errorf ''failed to decode response: {"jobs":[]}'')\<close>
    by code_simp
  have q: \<open>Unmarshal decodeJobList \<lparr>Jobs = []\<rparr> ''{"jobs":null}'' = Inr \<lparr>Jobs = []\<rparr> \<and>
      ListJobs_parse ''{"jobs":null}'' = Inl (Errorf ''failed to decode response: {"jobs":null}'') \<and>
      Unmarshal decodeJobList \<lparr>Jobs = []\<rparr> '' {} '' = Inr \<lparr>Jobs = []\<rparr> \<and>
      ListJobs_parse '' {} '' = Inl (Errorf ''failed to decode response:  {} '')\<close>
    by code_simp
  have r: \<open>ListJobs_parse ''[]'' = Inr \<lparr>Jobs = []\<rparr> \<and> ListJobs_parse ''null'' = Inr \<lparr>Jobs = []\<rparr> \<and>
      ListJobs_parse ''{}'' = Inr \<lparr>Jobs = []\<rparr>\<close>
    by code_simp
  have l: \<open>fst (ListJobs example_session None
          (constant_world \<lparr>StatusCode = 200, Body = ''{"jobs":[]}'', BodyErr = None\<rparr>)) =
     ListJobs_parse ''{"jobs":[]}''\<close>
    by (simp add: ListJobs_def ListJobs_params_def roundTrip_def NewRequest_def Do_def Let_def
          constant_world_def)
  from p q r l show ?thesis by simp
qed

subsection \<open>Waiting for completion\<close>

lemma same_server_refl: "same_server w w" by (simp add: same_server_def)
lemma same_server_trans: "same_server a b \<Longrightarrow> same_server b c \<Longrightarrow> same_server a c"
  by (simp add: same_server_def)

lemma roundTrip_world:
  "roundTrip session method apiURL b ct w = (res, w') \<Longrightarrow>
   same_server w w' \<and> clock w \<le> clock w' \<and> sleeps w' = sleeps w"
  by (auto simp: roundTrip_def NewRequest_def Do_def Let_def same_server_def
      split: option.splits sum.splits prod.splits)

lemma ListJobs_world:
  "ListJobs session f w = (res, w') \<Longrightarrow>
   same_server w w' \<and> clock w \<le> clock w' \<and> sleeps w' = sleeps w"
  unfolding ListJobs_def Let_def
  by (auto split: prod.splits sum.splits if_splits option.splits dest!: roundTrip_world)

lemma GetJobByNameID_world:
  "GetJobByNameID session n i w = (res, w') \<Longrightarrow>
   same_server w w' \<and> clock w \<le> clock w' \<and> sleeps w' = sleeps w"
  unfolding GetJobByNameID_def Let_def
  by (auto split: prod.splits sum.splits if_splits option.splits dest!: roundTrip_world)

lemma GetJob_world:
  "GetJob session c w = (res, w') \<Longrightarrow>
   same_server w w' \<and> clock w \<le> clock w' \<and> sleeps w' = sleeps w"
  unfolding GetJob_def Let_def
  by (auto split: prod.splits sum.splits if_splits option.splits
      dest!: ListJobs_world GetJobByNameID_world simp: same_server_refl intro: same_server_trans)

lemma GetJobStatus_world:
  "GetJobStatus session c w = (res, w') \<Longrightarrow>
   same_server w w' \<and> clock w \<le> clock w' \<and> sleeps w' = sleeps w"
  unfolding GetJobStatus_def
  by (auto split: prod.splits sum.splits dest!: GetJob_world)

lemma roundTrip_took:
  "roundTrip session method apiURL b ct w = (Inr resp, w') \<Longrightarrow>
   clock w' = clock w + int (latency w (length (requests w)))"
  by (auto simp: roundTrip_def NewRequest_def Do_def Let_def
      split: option.splits sum.splits prod.splits)

lemma GetJobByNameID_took:
  "GetJobByNameID session n i w = (Inr job, w') \<Longrightarrow>
   clock w' = clock w + int (latency w (length (requests w)))"
  unfolding GetJobByNameID_def Let_def
  by (auto split: prod.splits sum.splits if_splits dest!: roundTrip_took)

lemma GetJobStatus_took:
  assumes "GetJobStatus session c w = (Inr status, w')"
  shows "\<exists>k. clock w + int (latency w k) \<le> clock w'"
proof -
  from assms obtain job where g: "GetJob session c w = (Inr job, w')"
    by (auto simp: GetJobStatus_def split: prod.splits sum.splits)
  show ?thesis
  proof (cases "Contains c '':''")
    case True
    with g obtain n i where "GetJobByNameID session n i w = (Inr job, w')"
      by (auto simp: GetJob_def split: sum.splits prod.splits)
    from GetJobByNameID_took [OF this] show ?thesis by auto
  next
    case False
    with g obtain jl w1 n i where l: "ListJobs session (Some \<lparr>Owner = [], Prefix = [], MaxJobs = 100,
        JobID = c, JobName = [], Status = [], UserCorrelator = []\<rparr>) w = (Inr jl, w1)"
      and j: "GetJobByNameID session n i w1 = (Inr job, w')"
      by (auto simp: GetJob_def Let_def split: sum.splits prod.splits option.splits)
    from ListJobs_world [OF l] have "latency w1 = latency w" "clock w \<le> clock w1"
      by (simp_all add: same_server_def)
    with GetJobByNameID_took [OF j] have "clock w + int (latency w (length (requests w1))) \<le> clock w'"
      by simp
    then show ?thesis by blast
  qed
qed

lemma Sleep_world:
  "same_server w (Sleep d w) \<and> clock w \<le> clock (Sleep d w) \<and> (0 < d \<longrightarrow> clock w + d \<le> clock (Sleep d w))"
  by (simp add: Sleep_def same_server_def)

lemma WaitForJobCompletion_loop_never_success:
  assumes "never_complete session correlator w0" "same_server w0 w"
  shows "WaitForJobCompletion_loop fuel session correlator timeout pollInterval start w \<noteq>
           Some (Inr status, w')"
  using assms(2)
proof (induction fuel arbitrary: w)
  case 0
  then show ?case by simp
next
  case (Suc n)
  show ?case
  proof (cases "Since start w > timeout")
    case True
    then show ?thesis by simp
  next
    case False
    obtain res w1 where g: "GetJobStatus session correlator w = (res, w1)" by fastforce
    note gw = GetJobStatus_world [OF g]
    show ?thesis
    proof (cases res)
      case (Inl err)
      with False g show ?thesis by simp
    next
      case (Inr st)
      with assms(1) Suc.prems g have nc: "\<not> isJobComplete st"
        unfolding never_complete_def by blast
      have "same_server w0 (Sleep pollInterval w1)"
        using Suc.prems gw Sleep_world [of w1 pollInterval] by (blast intro: same_server_trans)
      from Suc.IH [OF this] False g Inr nc show ?thesis by simp
    qed
  qed
qed

lemma WaitForJobCompletion_loop_timeout:
  assumes "Since start w > timeout"
  shows "WaitForJobCompletion_loop (Suc n) session correlator timeout pollInterval start w =
           Some (Inl (Errorf (''timeout waiting for job '' @ correlator @ '' to complete'')), w)"
  using assms by simp

lemma WaitForJobCompletion_loop_fetch_error:
  assumes "\<not> Since start w > timeout" "GetJobStatus session correlator w = (Inl err, w1)"
  shows "WaitForJobCompletion_loop (Suc n) session correlator timeout pollInterval start w =
           Some (Inl (Errorf_w ''failed to get job status: '' err), w1)"
  using assms by simp

lemma WaitForJobCompletion_loop_fuel:
  "WaitForJobCompletion_loop n session correlator timeout pollInterval start w = Some r \<Longrightarrow>
   WaitForJobCompletion_loop (n + k) session correlator timeout pollInterval start w = Some r"
proof (induction n arbitrary: w)
  case 0
  then show ?case by simp
next
  case (Suc n)
  then show ?case
    by (auto split: if_splits prod.splits sum.splits)
qed

lemma WaitForJobCompletion_loop_eventually:
  assumes nc: "never_complete session correlator w0"
    and aa: "always_answers session correlator w0"
    and pi: "0 < pollInterval \<or> (\<forall>k. 0 < latency w0 k)" and tm: "timeout < 2 ^ 63 - 1"
    and ss: "same_server w0 w"
  shows "\<exists>fuel w'. WaitForJobCompletion_loop fuel session correlator timeout pollInterval start w =
           Some (Inl (Errorf (''timeout waiting for job '' @ correlator @ '' to complete'')), w') \<and>
           Since start w' > timeout"
  using ss
proof (induction "nat (timeout + 1 - (clock w - start))" arbitrary: w rule: less_induct)
  case less
  show ?case
  proof (cases "Since start w > timeout")
    case True
    then have "WaitForJobCompletion_loop (Suc 0) session correlator timeout pollInterval start w =
           Some (Inl (Errorf (''timeout waiting for job '' @ correlator @ '' to complete'')), w)"
      by simp
    with True show ?thesis by blast
  next
    case False
    with tm have le: "clock w - start \<le> timeout" by (simp add: Since_def)
    from aa less.prems obtain st w1 where g: "GetJobStatus session correlator w = (Inr st, w1)"
      unfolding always_answers_def by blast
    note gw = GetJobStatus_world [OF g]
    from nc less.prems g have ncs: "\<not> isJobComplete st" unfolding never_complete_def by blast
    let ?w2 = "Sleep pollInterval w1"
    have s2: "same_server w0 ?w2"
      using less.prems gw Sleep_world [of w1 pollInterval] by (blast intro: same_server_trans)
    have "clock w + 1 \<le> clock ?w2"
    proof (cases "0 < pollInterval")
      case True
      then show ?thesis using gw Sleep_world [of w1 pollInterval] by auto
    next
      case False
      with pi have "\<forall>k. 0 < latency w0 k" by blast
      moreover from less.prems have "latency w = latency w0" by (simp add: same_server_def)
      moreover from GetJobStatus_took [OF g] obtain k where "clock w + int (latency w k) \<le> clock w1"
        by blast
      ultimately have "0 < latency w k" and "clock w + int (latency w k) \<le> clock w1"
        by simp_all
      then have "clock w + 1 \<le> clock w1" by linarith
      then show ?thesis using Sleep_world [of w1 pollInterval] by auto
    qed
    with le have "nat (timeout + 1 - (clock ?w2 - start)) < nat (timeout + 1 - (clock w - start))"
      by linarith
    from less.hyps [OF this s2] obtain fuel w' where
      r: "WaitForJobCompletion_loop fuel session correlator timeout pollInterval start ?w2 =
           Some (Inl (Errorf (''timeout waiting for job '' @ correlator @ '' to complete'')), w')"
      and t: "Since start w' > timeout" by blast
    from False g ncs r have
      "WaitForJobCompletion_loop (Suc fuel) session correlator timeout pollInterval start w =
           Some (Inl (Errorf (''timeout waiting for job '' @ correlator @ '' to complete'')), w')"
      by simp
    with t show ?thesis by blast
  qed
qed

text \<open>
  The start time is read before the loop tests the elapsed time for the first time.  When
  the clock moves in between by more than the timeout, as it does for a timeout that is
  negative, or zero on a clock that moves at all, the call returns the timeout error
  without a status fetch.
\<close>

lemma WaitForJobCompletion_elapsed_at_once:
  assumes "timeout < int (lapse w)" "timeout < 2 ^ 63 - 1"
  shows "WaitForJobCompletion (Suc n) session correlator timeout pollInterval w =
           Some (Inl (Errorf (''timeout waiting for job '' @ correlator @ '' to complete'')),
                 w\<lparr>clock := clock w + int (lapse w)\<rparr>)"
  using assms by (simp add: WaitForJobCompletion_def Now_def Since_def)

text \<open>
  C5.  When no status fetch returns a complete status, \<open>WaitForJobCompletion\<close> never
  returns success, however long it runs; if moreover every fetch returns a status, the
  poll interval is positive or every round trip takes time, and the timeout is below the
  largest duration, it returns the timeout error, at a moment when the elapsed time
  exceeds the timeout.  In every
  iteration, an elapsed time above the timeout gives the timeout error at once, and
  otherwise an error of the status fetch ends the loop at once with that error wrapped,
  without a sleep or another fetch.  A result does not depend on the iterations left.
\<close>

theorem WaitForJobCompletion_spec:
  "(never_complete session correlator w \<longrightarrow>
      (\<forall>fuel status w'. WaitForJobCompletion fuel session correlator timeout pollInterval w \<noteq>
         Some (Inr status, w'))) \<and>
   (never_complete session correlator w \<and> always_answers session correlator w \<and>
    (0 < pollInterval \<or> (\<forall>k. 0 < latency w k)) \<and> timeout < 2 ^ 63 - 1 \<longrightarrow>
      (\<exists>fuel w'. WaitForJobCompletion fuel session correlator timeout pollInterval w =
         Some (Inl (Errorf (''timeout waiting for job '' @ correlator @ '' to complete'')), w') \<and>
         Since (clock w) w' > timeout)) \<and>
   (Since startTime w1 > timeout \<longrightarrow>
      WaitForJobCompletion_loop (Suc n) session correlator timeout pollInterval startTime w1 =
        Some (Inl (Errorf (''timeout waiting for job '' @ correlator @ '' to complete'')), w1)) \<and>
   (\<not> Since startTime w1 > timeout \<and> GetJobStatus session correlator w1 = (Inl err, w2) \<longrightarrow>
      WaitForJobCompletion_loop (Suc n) session correlator timeout pollInterval startTime w1 =
        Some (Inl (Errorf_w ''failed to get job status: '' err), w2) \<and> sleeps w2 = sleeps w1) \<and>
   (WaitForJobCompletion n session correlator timeout pollInterval w = Some r \<longrightarrow>
      WaitForJobCompletion (n + k) session correlator timeout pollInterval w = Some r)"
proof -
  have ss: "same_server w (w\<lparr>clock := clock w + int (lapse w)\<rparr>)"
    by (simp add: same_server_def)
  have a: "never_complete session correlator w \<longrightarrow>
      (\<forall>fuel status w'. WaitForJobCompletion fuel session correlator timeout pollInterval w \<noteq>
         Some (Inr status, w'))"
    unfolding WaitForJobCompletion_def Now_def prod.case
    using WaitForJobCompletion_loop_never_success [OF _ ss] by blast
  have b: "never_complete session correlator w \<and> always_answers session correlator w \<and>
    (0 < pollInterval \<or> (\<forall>k. 0 < latency w k)) \<and> timeout < 2 ^ 63 - 1 \<longrightarrow>
      (\<exists>fuel w'. WaitForJobCompletion fuel session correlator timeout pollInterval w =
         Some (Inl (Errorf (''timeout waiting for job '' @ correlator @ '' to complete'')), w') \<and>
         Since (clock w) w' > timeout)"
    unfolding WaitForJobCompletion_def Now_def prod.case
    using WaitForJobCompletion_loop_eventually [OF _ _ _ _ ss] by blast
  have c: "Since startTime w1 > timeout \<longrightarrow>
      WaitForJobCompletion_loop (Suc n) session correlator timeout pollInterval startTime w1 =
        Some (Inl (Errorf (''timeout waiting for job '' @ correlator @ '' to complete'')), w1)"
    by simp
  have d: "\<not> Since startTime w1 > timeout \<and> GetJobStatus session correlator w1 = (Inl err, w2) \<longrightarrow>
      WaitForJobCompletion_loop (Suc n) session correlator timeout pollInterval startTime w1 =
        Some (Inl (Errorf_w ''failed to get job status: '' err), w2) \<and> sleeps w2 = sleeps w1"
    using GetJobStatus_world [of session correlator w1 "Inl err" w2] by simp
  have e: "WaitForJobCompletion n session correlator timeout pollInterval w = Some r \<longrightarrow>
      WaitForJobCompletion (n + k) session correlator timeout pollInterval w = Some r"
    unfolding WaitForJobCompletion_def Now_def prod.case using WaitForJobCompletion_loop_fuel by blast
  from a b c d e show ?thesis by blast
qed

lemma running_world_status:
  assumes "same_server running_world w'"
  shows "\<exists>w''. GetJobStatus example_session ''TESTJOB:JOB001'' w' = (Inr ''RUNNING'', w'')"
proof -
  have c1: "Contains ''TESTJOB:JOB001'' '':''" by code_simp
  have c2: "parseCorrelator ''TESTJOB:JOB001'' = Inr (''TESTJOB'', ''JOB001'')" by code_simp
  have c3: \<open>Decode decodeJob zeroJob ''{"jobid":"JOB001","jobname":"TESTJOB","status":"RUNNING"}'' None =
      Inr (zeroJob\<lparr>Job.JobID := ''JOB001'', Job.JobName := ''TESTJOB'', Job.Status := ''RUNNING''\<rparr>)\<close>
    by code_simp
  from assms have sv: \<open>server w' = (\<lambda>n req. Inr \<lparr>StatusCode = 200,
      Body = ''{"jobid":"JOB001","jobname":"TESTJOB","status":"RUNNING"}'', BodyErr = None\<rparr>)\<close>
    and up: "url_Parse w' = (\<lambda>u. None)"
    by (simp_all add: same_server_def running_world_def constant_world_def)
  show ?thesis
    by (simp add: GetJobStatus_def GetJob_def GetJobByNameID_def roundTrip_def NewRequest_def Do_def
          Let_def c1 c2 c3 sv up del: Contains.simps)
qed

theorem WaitForJobCompletion_spec_witness:
  \<open>(\<forall>fuel status w'. WaitForJobCompletion fuel example_session ''TESTJOB:JOB001'' 100000000 50000000
       running_world \<noteq> Some (Inr status, w')) \<and>
   (\<exists>fuel w'. WaitForJobCompletion fuel example_session ''TESTJOB:JOB001'' 100000000 50000000 running_world =
       Some (Inl (Errorf ''timeout waiting for job TESTJOB:JOB001 to complete''), w') \<and>
       Since (clock running_world) w' > 100000000) \<and>
   map_option fst (WaitForJobCompletion 1 example_session ''TESTJOB:JOB001'' 1000000000 100000000
       notfound_world) =
     Some (Inl (Errorf_w ''failed to get job status: ''
       (Errorf ''API request failed with status 404: {"error": "Job not found"}'')))\<close>
proof -
  have r: "\<not> isJobComplete ''RUNNING''" by code_simp
  have nc: "never_complete example_session ''TESTJOB:JOB001'' running_world"
    unfolding never_complete_def using running_world_status r by fastforce
  have aa: "always_answers example_session ''TESTJOB:JOB001'' running_world"
    unfolding always_answers_def using running_world_status by blast
  note t = WaitForJobCompletion_spec [where session = example_session and correlator = "''TESTJOB:JOB001''"]
  from t [where w = running_world and timeout = 100000000 and pollInterval = 50000000] nc aa
  have p: "(\<forall>fuel status w'. WaitForJobCompletion fuel example_session ''TESTJOB:JOB001'' 100000000 50000000
       running_world \<noteq> Some (Inr status, w')) \<and>
    (\<exists>fuel w'. WaitForJobCompletion fuel example_session ''TESTJOB:JOB001'' 100000000 50000000 running_world =
       Some (Inl (Errorf ''timeout waiting for job TESTJOB:JOB001 to complete''), w') \<and>
       Since (clock running_world) w' > 100000000)"
    by simp
  have c1: "Contains ''TESTJOB:JOB001'' '':''" by code_simp
  have c2: "parseCorrelator ''TESTJOB:JOB001'' = Inr (''TESTJOB'', ''JOB001'')" by code_simp
  have c4: \<open>statusError \<lparr>StatusCode = 404, Body = ''{"error": "Job not found"}'', BodyErr = None\<rparr> =
      Errorf ''API request failed with status 404: {"error": "Job not found"}''\<close>
    by (simp add: statusError_def Itoa_def decimal.simps digits_def)
  let ?w0 = "notfound_world\<lparr>clock := clock notfound_world + int (lapse notfound_world)\<rparr>"
  have g: \<open>fst (GetJobStatus example_session ''TESTJOB:JOB001'' ?w0) =
      Inl (Errorf ''API request failed with status 404: {"error": "Job not found"}'')\<close>
    by (simp add: GetJobStatus_def GetJob_def GetJobByNameID_def roundTrip_def NewRequest_def Do_def
          Let_def c1 c2 c4 Now_def notfound_world_def constant_world_def del: Contains.simps)
  have s: "\<not> Since (clock notfound_world) ?w0 > 1000000000"
    by (simp add: Since_def Now_def notfound_world_def constant_world_def)
  obtain w2 where g2: \<open>GetJobStatus example_session ''TESTJOB:JOB001'' ?w0 =
      (Inl (Errorf ''API request failed with status 404: {"error": "Job not found"}''), w2)\<close>
    using g by (cases "GetJobStatus example_session ''TESTJOB:JOB001'' ?w0") auto
  have n: "Now notfound_world = (clock notfound_world, ?w0)"
    by (simp add: Now_def)
  from t [where ?w1.0 = ?w0 and ?w2.0 = w2 and timeout = 1000000000 and n = 0
        and startTime = "clock notfound_world" and pollInterval = 100000000] s g2
  have q: \<open>map_option fst (WaitForJobCompletion 1 example_session ''TESTJOB:JOB001'' 1000000000 100000000
       notfound_world) =
     Some (Inl (Errorf_w ''failed to get job status: ''
       (Errorf ''API request failed with status 404: {"error": "Job not found"}'')))\<close>
    unfolding WaitForJobCompletion_def n prod.case by simp
  from p q show ?thesis by blast
qed

subsection \<open>Collecting the output of a job\<close>

lemma GetJobOutput_loop_outcomes:
  "GetJobOutput_loop session jobName jobID spoolFiles out w =
     (collect out (fst (fetch_outcomes session jobName jobID spoolFiles w)),
      snd (fetch_outcomes session jobName jobID spoolFiles w))"
proof (induction spoolFiles arbitrary: out w)
  case Nil
  then show ?case by (simp add: collect_def)
next
  case (Cons f rest)
  then show ?case
    by (auto simp: collect_def split: prod.splits sum.splits)
qed

lemma collect_absent:
  "(\<forall>(spoolFile, r) \<in> set outcomes. DDName spoolFile = k \<longrightarrow> isl r) \<Longrightarrow>
   collect out outcomes k = out k"
  unfolding collect_def
proof (induction outcomes arbitrary: out)
  case Nil
  then show ?case by simp
next
  case (Cons a os)
  obtain f r where a: "a = (f, r)" by (cases a)
  from Cons.prems have rest: "\<forall>(spoolFile, r) \<in> set os. DDName spoolFile = k \<longrightarrow> isl r" by simp
  from Cons.prems a have here: "DDName f = k \<longrightarrow> isl r" by simp
  show ?case
    using Cons.IH [OF rest] here a by (cases r) auto
qed

lemma collect_Cons:
  "collect out ((f, r) # os) =
     collect (case r of Inl err \<Rightarrow> out | Inr content \<Rightarrow> out(DDName f \<mapsto> content)) os"
  by (simp add: collect_def)

lemma collect_present:
  "collect out outcomes k = Some content \<Longrightarrow>
   out k = Some content \<or> (\<exists>spoolFile. (spoolFile, Inr content) \<in> set outcomes \<and> DDName spoolFile = k)"
proof (induction outcomes arbitrary: out)
  case Nil
  then show ?case by (simp add: collect_def)
next
  case (Cons a os)
  obtain f r where a: "a = (f, r)" by (cases a)
  show ?case
  proof (cases r)
    case (Inl e)
    with Cons.prems a have "collect out os k = Some content" by (simp add: collect_Cons)
    from Cons.IH [OF this] show ?thesis by auto
  next
    case (Inr c)
    with Cons.prems a have "collect (out(DDName f \<mapsto> c)) os k = Some content"
      by (simp add: collect_Cons)
    from Cons.IH [OF this]
    have "(out(DDName f \<mapsto> c)) k = Some content \<or>
      (\<exists>spoolFile. (spoolFile, Inr content) \<in> set os \<and> DDName spoolFile = k)" .
    then show ?thesis
    proof
      assume u: "(out(DDName f \<mapsto> c)) k = Some content"
      show ?thesis
      proof (cases "k = DDName f")
        case True
        with u have "c = content" by simp
        with True a Inr have "(f, Inr content) \<in> set (a # os) \<and> DDName f = k" by simp
        then show ?thesis by blast
      next
        case False
        with u show ?thesis by simp
      qed
    next
      assume "\<exists>spoolFile. (spoolFile, Inr content) \<in> set os \<and> DDName spoolFile = k"
      then show ?thesis by auto
    qed
  qed
qed

lemma collect_lookup:
  "collect out outcomes k =
     (case filter (\<lambda>(spoolFile, r). DDName spoolFile = k \<and> \<not> isl r) outcomes of
        [] \<Rightarrow> out k
      | x # xs \<Rightarrow> Some (projr (snd (last (x # xs)))))"
proof (induction outcomes arbitrary: out)
  case Nil
  then show ?case by (simp add: collect_def)
next
  case (Cons a os)
  obtain f r where a: "a = (f, r)" by (cases a)
  let ?keep = "filter (\<lambda>(spoolFile, r). DDName spoolFile = k \<and> \<not> isl r) os"
  show ?case
  proof (cases r)
    case (Inl e)
    with a Cons.IH [of out] show ?thesis by (simp add: collect_Cons)
  next
    case (Inr c)
    have step: "collect out (a # os) k = collect (out(DDName f \<mapsto> c)) os k"
      using a Inr by (simp add: collect_Cons)
    note ih = Cons.IH [of "out(DDName f \<mapsto> c)"]
    show ?thesis
    proof (cases "DDName f = k")
      case True
      then have fl: "filter (\<lambda>(spoolFile, r). DDName spoolFile = k \<and> \<not> isl r) (a # os) = a # ?keep"
        using a Inr by simp
      show ?thesis
      proof (cases ?keep)
        case Nil
        with ih have "collect (out(DDName f \<mapsto> c)) os k = (out(DDName f \<mapsto> c)) k"
          by (simp only: list.case)
        also have "\<dots> = Some c" using True by simp
        finally have "collect out (a # os) k = Some c" using step by (simp only:)
        with fl Nil a Inr show ?thesis by simp
      next
        case (Cons y ys)
        with ih have "collect (out(DDName f \<mapsto> c)) os k = Some (projr (snd (last (y # ys))))"
          by (simp only: list.case)
        with step have "collect out (a # os) k = Some (projr (snd (last (y # ys))))" by (simp only:)
        with fl Cons show ?thesis by simp
      qed
    next
      case False
      then have fl: "filter (\<lambda>(spoolFile, r). DDName spoolFile = k \<and> \<not> isl r) (a # os) = ?keep"
        using a by simp
      from False have "(out(DDName f \<mapsto> c)) k = out k" by auto
      with ih have "collect (out(DDName f \<mapsto> c)) os k =
          (case ?keep of [] \<Rightarrow> out k | x # xs \<Rightarrow> Some (projr (snd (last (x # xs)))))"
        by (simp only:)
      with step fl show ?thesis by (simp only:)
    qed
  qed
qed

text \<open>
  The claim C9 as the specification words it: a DD whose content fetch fails is left out
  of the result.  In the world below the job has two spool files with the DD name SYSOUT.
  The fetch for the second fails, and the result still has an entry for SYSOUT, the
  content of the first.
\<close>

theorem GetJobOutput_shared_ddname_counterexample:
  \<open>fst (GetSpoolFiles example_session ''TESTJOB'' ''JOB001'' sysout_world) =
     Inr [zeroSpoolFile\<lparr>ID := 1, DDName := ''SYSOUT''\<rparr>, zeroSpoolFile\<lparr>ID := 2, DDName := ''SYSOUT''\<rparr>] \<and>
   fst (fetch_outcomes example_session ''TESTJOB'' ''JOB001''
          [zeroSpoolFile\<lparr>ID := 1, DDName := ''SYSOUT''\<rparr>, zeroSpoolFile\<lparr>ID := 2, DDName := ''SYSOUT''\<rparr>]
          (snd (GetSpoolFiles example_session ''TESTJOB'' ''JOB001'' sysout_world))) =
     [(zeroSpoolFile\<lparr>ID := 1, DDName := ''SYSOUT''\<rparr>, Inr ''first''),
      (zeroSpoolFile\<lparr>ID := 2, DDName := ''SYSOUT''\<rparr>,
       Inl (Errorf ''API request failed with status 500: spool file unavailable''))] \<and>
   map_sum id (\<lambda>m. m ''SYSOUT'') (fst (GetJobOutput example_session ''TESTJOB:JOB001'' sysout_world)) =
     Inr (Some ''first'')\<close>
proof -
  let ?f1 = "zeroSpoolFile\<lparr>ID := 1, DDName := ''SYSOUT''\<rparr>"
  let ?f2 = "zeroSpoolFile\<lparr>ID := 2, DDName := ''SYSOUT''\<rparr>"
  let ?w1 = "sysout_world\<lparr>requests := [\<lparr>Method = ''GET'',
      URL = ''https://mainframe.example.com/zosmf/restjobs/jobs/TESTJOB/JOB001/files'',
      Header = Headers example_session, Body = NoBody\<rparr>], clock := 1000000\<rparr>"
  have c1: "Contains ''TESTJOB:JOB001'' '':''" by code_simp
  have c2: "parseCorrelator ''TESTJOB:JOB001'' = Inr (''TESTJOB'', ''JOB001'')" by code_simp
  have u: "PathEscape ''TESTJOB'' = ''TESTJOB''" "PathEscape ''JOB001'' = ''JOB001''" by code_simp+
  have c3: \<open>Decode (decodeSlice decodeSpoolFile zeroSpoolFile) []
      ''[{"id":1,"ddname":"SYSOUT"},{"id":2,"ddname":"SYSOUT"}]'' None = Inr [?f1, ?f2]\<close>
    by code_simp
  have i: "Itoa 1 = ''1''" "Itoa 2 = ''2''"
    by (simp_all add: Itoa_def decimal.simps digits_def)
  have c4: "statusError \<lparr>StatusCode = 500, Body = ''spool file unavailable'', BodyErr = None\<rparr> =
      Errorf ''API request failed with status 500: spool file unavailable''"
    by (simp add: statusError_def Itoa_def decimal.simps digits_def)
  have gs: "GetSpoolFiles example_session ''TESTJOB'' ''JOB001'' sysout_world = (Inr [?f1, ?f2], ?w1)"
    by (simp add: GetSpoolFiles_def roundTrip_def NewRequest_def Do_def Let_def u c3
          sysout_world_def example_session_def del: PathEscape.simps)
  have fo: "fst (fetch_outcomes example_session ''TESTJOB'' ''JOB001'' [?f1, ?f2] ?w1) =
      [(?f1, Inr ''first''),
       (?f2, Inl (Errorf ''API request failed with status 500: spool file unavailable''))]"
    by (simp add: GetSpoolFileContent_def roundTrip_def NewRequest_def Do_def Let_def u i c4
          sysout_world_def zeroSpoolFile_def del: PathEscape.simps)
  have g: "fst (GetJobOutput example_session ''TESTJOB:JOB001'' sysout_world) =
      Inr (collect Map.empty (fst (fetch_outcomes example_session ''TESTJOB'' ''JOB001'' [?f1, ?f2] ?w1)))"
    by (simp add: GetJobOutput_def GetJobOutput_resolve_def c1 c2 gs GetJobOutput_loop_outcomes
          del: Contains.simps)
  show ?thesis
    unfolding g gs fst_conv snd_conv fo by (simp add: collect_def zeroSpoolFile_def)
qed

text \<open>
  C9, amended.  When the job is resolved and its spool files are listed, \<open>GetJobOutput\<close>
  succeeds whatever the content fetches do, and its result is the map collected from the
  fetches that succeeded, from DD name to content.  A spool file whose content fetch
  fails is skipped: the loop goes on with the map unchanged and the error is dropped.
  The entry of a DD name is the content of the last spool file of that name whose fetch
  succeeded.  So a DD name of which every spool file failed has no entry in the result, as
  if there had been no such spool file, while a DD name that a failed spool file shares
  with one that succeeded keeps its entry; and every entry of the result is the content
  of a fetch that succeeded.
\<close>

theorem GetJobOutput_spec:
  "(GetJobOutput_resolve session correlator w = (Inr (jobName, jobID), w0) \<and>
    GetSpoolFiles session jobName jobID w0 = (Inr spoolFiles, w1) \<longrightarrow>
      GetJobOutput session correlator w =
        (Inr (collect Map.empty (fst (fetch_outcomes session jobName jobID spoolFiles w1))),
         snd (fetch_outcomes session jobName jobID spoolFiles w1))) \<and>
   ((\<forall>(spoolFile, r) \<in> set outcomes. DDName spoolFile = ddName \<longrightarrow> isl r) \<longrightarrow>
      collect Map.empty outcomes ddName = None) \<and>
   (collect Map.empty outcomes ddName = Some content \<longrightarrow>
      (\<exists>spoolFile. (spoolFile, Inr content) \<in> set outcomes \<and> DDName spoolFile = ddName)) \<and>
   (GetSpoolFileContent session jobName jobID (ID spoolFile) w2 = (Inl err, w3) \<longrightarrow>
      GetJobOutput_loop session jobName jobID (spoolFile # rest) out w2 =
        GetJobOutput_loop session jobName jobID rest out w3) \<and>
   collect Map.empty outcomes ddName =
     (case filter (\<lambda>(spoolFile, r). DDName spoolFile = ddName \<and> \<not> isl r) outcomes of
        [] \<Rightarrow> None
      | x # xs \<Rightarrow> Some (projr (snd (last (x # xs)))))"
proof -
  have a: "GetJobOutput_resolve session correlator w = (Inr (jobName, jobID), w0) \<and>
    GetSpoolFiles session jobName jobID w0 = (Inr spoolFiles, w1) \<longrightarrow>
      GetJobOutput session correlator w =
        (Inr (collect Map.empty (fst (fetch_outcomes session jobName jobID spoolFiles w1))),
         snd (fetch_outcomes session jobName jobID spoolFiles w1))"
    by (simp add: GetJobOutput_def GetJobOutput_loop_outcomes)
  have b: "(\<forall>(spoolFile, r) \<in> set outcomes. DDName spoolFile = ddName \<longrightarrow> isl r) \<longrightarrow>
      collect Map.empty outcomes ddName = None"
    using collect_absent [of outcomes ddName Map.empty] by simp
  have c: "collect Map.empty outcomes ddName = Some content \<longrightarrow>
      (\<exists>spoolFile. (spoolFile, Inr content) \<in> set outcomes \<and> DDName spoolFile = ddName)"
    using collect_present [of Map.empty outcomes ddName content] by simp
  have d: "GetSpoolFileContent session jobName jobID (ID spoolFile) w2 = (Inl err, w3) \<longrightarrow>
      GetJobOutput_loop session jobName jobID (spoolFile # rest) out w2 =
        GetJobOutput_loop session jobName jobID rest out w3"
    by simp
  have e: "collect Map.empty outcomes ddName =
     (case filter (\<lambda>(spoolFile, r). DDName spoolFile = ddName \<and> \<not> isl r) outcomes of
        [] \<Rightarrow> None
      | x # xs \<Rightarrow> Some (projr (snd (last (x # xs)))))"
    using collect_lookup [of Map.empty outcomes ddName] by simp
  from a b c d e show ?thesis by blast
qed

theorem GetJobOutput_spec_witness:
  \<open>\<exists>m w'. GetJobOutput example_session ''TESTJOB:JOB001'' spool_world = (Inr m, w') \<and>
     m ''JESMSGLG'' = Some ''IEF142I STEP WAS EXECUTED'' \<and> m ''JESJCL'' = None \<and>
     m ''SYSPRINT'' = Some ''IEF142I STEP WAS EXECUTED'' \<and> length (requests w') = 4\<close>
proof -
  let ?f1 = "zeroSpoolFile\<lparr>ID := 1, DDName := ''JESMSGLG''\<rparr>"
  let ?f2 = "zeroSpoolFile\<lparr>ID := 2, DDName := ''JESJCL''\<rparr>"
  let ?f3 = "zeroSpoolFile\<lparr>ID := 3, DDName := ''SYSPRINT''\<rparr>"
  let ?w1 = "spool_world\<lparr>requests := [\<lparr>Method = ''GET'',
      URL = ''https://mainframe.example.com/zosmf/restjobs/jobs/TESTJOB/JOB001/files'',
      Header = Headers example_session, Body = NoBody\<rparr>], clock := 1000000\<rparr>"
  have c1: "Contains ''TESTJOB:JOB001'' '':''" by code_simp
  have c2: "parseCorrelator ''TESTJOB:JOB001'' = Inr (''TESTJOB'', ''JOB001'')" by code_simp
  have u: "PathEscape ''TESTJOB'' = ''TESTJOB''" "PathEscape ''JOB001'' = ''JOB001''" by code_simp+
  have c3: \<open>Decode (decodeSlice decodeSpoolFile zeroSpoolFile) []
      ''[{"id":1,"ddname":"JESMSGLG"},{"id":2,"ddname":"JESJCL"},{"id":3,"ddname":"SYSPRINT"}]'' None =
      Inr [?f1, ?f2, ?f3]\<close>
    by code_simp
  have i: "Itoa 1 = ''1''" "Itoa 2 = ''2''" "Itoa 3 = ''3''"
    by (simp_all add: Itoa_def decimal.simps digits_def)
  have c4: "statusError \<lparr>StatusCode = 500, Body = ''spool file unavailable'', BodyErr = None\<rparr> =
      Errorf ''API request failed with status 500: spool file unavailable''"
    by (simp add: statusError_def Itoa_def decimal.simps digits_def)
  have res: "GetJobOutput_resolve example_session ''TESTJOB:JOB001'' spool_world =
      (Inr (''TESTJOB'', ''JOB001''), spool_world)"
    by (simp add: GetJobOutput_resolve_def c1 c2 del: Contains.simps)
  have gs: "GetSpoolFiles example_session ''TESTJOB'' ''JOB001'' spool_world = (Inr [?f1, ?f2, ?f3], ?w1)"
    by (simp add: GetSpoolFiles_def roundTrip_def NewRequest_def Do_def Let_def u c3
          spool_world_def example_session_def del: PathEscape.simps)
  note t = GetJobOutput_spec [where session = example_session and correlator = "''TESTJOB:JOB001''"
      and w = spool_world and ?w0.0 = spool_world and jobName = "''TESTJOB''" and jobID = "''JOB001''"
      and spoolFiles = "[?f1, ?f2, ?f3]" and ?w1.0 = ?w1, THEN conjunct1]
  with res gs have g: "GetJobOutput example_session ''TESTJOB:JOB001'' spool_world =
        (Inr (collect Map.empty (fst (fetch_outcomes example_session ''TESTJOB'' ''JOB001'' [?f1, ?f2, ?f3] ?w1))),
         snd (fetch_outcomes example_session ''TESTJOB'' ''JOB001'' [?f1, ?f2, ?f3] ?w1))"
    by blast
  have fo: "fst (fetch_outcomes example_session ''TESTJOB'' ''JOB001'' [?f1, ?f2, ?f3] ?w1) =
      [(?f1, Inr ''IEF142I STEP WAS EXECUTED''),
       (?f2, Inl (Errorf ''API request failed with status 500: spool file unavailable'')),
       (?f3, Inr ''IEF142I STEP WAS EXECUTED'')] \<and>
     length (requests (snd (fetch_outcomes example_session ''TESTJOB'' ''JOB001'' [?f1, ?f2, ?f3] ?w1))) = 4"
    by (simp add: GetSpoolFileContent_def roundTrip_def NewRequest_def Do_def Let_def u i c4
          spool_world_def zeroSpoolFile_def del: PathEscape.simps)
  show ?thesis
    unfolding g using fo by (simp add: collect_def zeroSpoolFile_def)
qed

end
